theory Spec2Isabelle
  imports Complex_Main "HOL-Library.Multiset"
begin

section \<open>Responses and request validation\<close>

text \<open>
  The routers answer a request with a status code and a JSON body. Only the parts of the
  body the handlers of this development set are kept: the \<open>message\<close> string and, for a
  success, the document sent back.
\<close>

datatype exn = CastError string | ValidationError | Error string

datatype msg = NoMessage | Text string | CastMessage string | ValidationMessage

text \<open>
  \<open>error.message\<close> of a caught exception: the text given to \<open>new Error\<close> or reported by the
  database driver, the cast failure's text for the identifier it names, or the schema
  validation's text.
\<close>

fun error_message :: "exn \<Rightarrow> msg" where
  "error_message (CastError i) = CastMessage i"
| "error_message ValidationError = ValidationMessage"
| "error_message (Error m) = Text m"

record 'd response =
  status :: nat
  message :: msg
  payload :: "'d option"

definition reply :: "nat \<Rightarrow> string \<Rightarrow> 'd response" where
  "reply code m = \<lparr>status = code, message = Text m, payload = None\<rparr>"

definition reply_error :: "nat \<Rightarrow> exn \<Rightarrow> 'd response" where
  "reply_error code e = \<lparr>status = code, message = error_message e, payload = None\<rparr>"

definition reply_doc :: "nat \<Rightarrow> 'd \<Rightarrow> 'd response" where
  "reply_doc code d = \<lparr>status = code, message = NoMessage, payload = Some d\<rparr>"

text \<open>
  A middleware either answers the request itself or calls \<open>next()\<close>.
\<close>

datatype 'd middleware = Respond "'d response" | Next

text \<open>
  A text field of \<open>req.body\<close> is absent (\<open>undefined\<close>) or a string. JavaScript's \<open>!s\<close> is
  true for \<open>undefined\<close> and for the empty string.
\<close>

definition falsy :: "string option \<Rightarrow> bool" where
  "falsy f = (case f of None \<Rightarrow> True | Some s \<Rightarrow> s = [])"

definition field_length :: "string option \<Rightarrow> nat" where
  "field_length f = (case f of None \<Rightarrow> 0 | Some s \<Rightarrow> length s)"

text \<open>
  The price field: absent, a string (a multipart or urlencoded body) or a number (a JSON
  body). \<open>isNaN(price)\<close> and \<open>price <= 0\<close> coerce a string with the language's \<open>Number\<close>;
  the handlers read it with \<open>parseFloat\<close>. Both conversions, \<open>JSON.parse\<close> on a list of
  strings and \<open>String.prototype.trim\<close> belong to the language and are parameters here;
  \<open>None\<close> stands for \<open>NaN\<close> and for the syntax error \<open>JSON.parse\<close> throws.
\<close>

record js =
  js_Number :: "string \<Rightarrow> real option"
  js_parseFloat :: "string \<Rightarrow> real option"
  js_JSON_parse :: "string \<Rightarrow> string list option"
  js_trim :: "string \<Rightarrow> string"

datatype price_field = PUndefined | PString string | PNumber real

definition price_falsy :: "price_field \<Rightarrow> bool" where
  "price_falsy p = (case p of PUndefined \<Rightarrow> True | PString s \<Rightarrow> s = [] | PNumber r \<Rightarrow> r = 0)"

definition price_number :: "(string \<Rightarrow> real option) \<Rightarrow> price_field \<Rightarrow> real option" where
  "price_number to_number p =
     (case p of PUndefined \<Rightarrow> None | PString s \<Rightarrow> to_number s | PNumber r \<Rightarrow> Some r)"

record blog_body =
  b_title :: "string option"
  b_content :: "string option"
  b_category :: "string option"

record product_body =
  p_title :: "string option"
  p_tagline :: "string option"
  p_price :: price_field
  p_category :: "string option"
  p_description :: "string option"
  p_features :: "string option"
  p_specifications :: "string option"
  p_tags :: "string option"

definition validateBlogPost :: "blog_body \<Rightarrow> 'd middleware" where
  "validateBlogPost body =
     (if falsy (b_title body) \<or> falsy (b_content body)
      then Respond (reply 400 ''Title and content are required'')
      else if field_length (b_title body) < 3 \<or> field_length (b_title body) > 100
      then Respond (reply 400 ''Title must be between 3 and 100 characters'')
      else if field_length (b_content body) < 10
      then Respond (reply 400 ''Content must be at least 10 characters long'')
      else Next)"

definition validateProduct :: "js \<Rightarrow> ('x product_body_scheme) \<Rightarrow> 'd middleware" where
  "validateProduct lang body =
     (if falsy (p_title body) \<or> price_falsy (p_price body) \<or> falsy (p_description body)
      then Respond (reply 400 ''Title, price, and description are required'')
      else if field_length (p_title body) < 3 \<or> field_length (p_title body) > 100
      then Respond (reply 400 ''Title must be between 3 and 100 characters'')
      else if field_length (p_description body) < 10
      then Respond (reply 400 ''Description must be at least 10 characters long'')
      else if (case price_number (js_Number lang) (p_price body) of None \<Rightarrow> True | Some r \<Rightarrow> r \<le> 0)
      then Respond (reply 400 ''Price must be a positive number'')
      else Next)"

definition rejected :: "'d middleware \<Rightarrow> nat \<Rightarrow> bool" where
  "rejected m code = (case m of Respond r \<Rightarrow> status r = code | Next \<Rightarrow> False)"

section \<open>Paths, the filesystem and the console\<close>

text \<open>
  A file path is the list of its segments below the project root, so \<open>public/uploads/x.png\<close>
  is \<open>[''public'', ''uploads'', ''x.png'']\<close>. \<open>path.join\<close> glues its arguments with a slash
  and normalises the result: empty and \<open>.\<close> segments vanish and \<open>..\<close> removes the segment
  before it.
\<close>

type_synonym fpath = "string list"

fun split_at :: "char \<Rightarrow> string \<Rightarrow> string \<Rightarrow> string list" where
  "split_at c acc [] = [rev acc]"
| "split_at c acc (x # xs) =
     (if x = c then rev acc # split_at c [] xs else split_at c (x # acc) xs)"

definition js_split :: "char \<Rightarrow> string \<Rightarrow> string list" where
  "js_split c s = split_at c [] s"

fun normalize_segments :: "fpath \<Rightarrow> string list \<Rightarrow> fpath" where
  "normalize_segments acc [] = rev acc"
| "normalize_segments acc (s # ss) =
     (if s = [] \<or> s = ''.'' then normalize_segments acc ss
      else if s = ''..'' then
        (case acc of
           [] \<Rightarrow> normalize_segments [''..''] ss
         | a # as \<Rightarrow> if a = ''..'' then normalize_segments (''..'' # acc) ss else normalize_segments as ss)
      else normalize_segments (s # acc) ss)"

definition path_join :: "fpath \<Rightarrow> string \<Rightarrow> fpath" where
  "path_join dir name = normalize_segments [] (dir @ js_split (CHR ''/'') name)"

text \<open>
  \<open>path.join(__dirname, '../../public')\<close> for a router in \<open>server/api\<close>, the destination
  \<open>'public/uploads/'\<close> of the blog router's uploads (relative to the working directory, the
  project root) and the product router's \<open>'../../public/uploads/products'\<close>.
\<close>

definition public_dir :: fpath where
  "public_dir = [''public'']"

definition blog_uploads :: fpath where
  "blog_uploads = [''public'', ''uploads'']"

definition product_uploads :: fpath where
  "product_uploads = [''public'', ''uploads'', ''products'']"

text \<open>
  The world a request runs in: the files on disk, the files whose removal the operating
  system refuses, the lines written with \<open>console.error\<close>, the documents of the router's
  collection by identifier, the fault (if any) with which the database rejects a write,
  and whether a write takes the database longer than the 30 seconds the product create
  handler waits for it.
\<close>

record 'd world =
  disk :: "fpath set"
  locked :: "fpath set"
  console :: "string list"
  collection :: "(string \<times> 'd) list"
  write_fault :: "string option"
  write_delay :: bool

datatype fs_error = ENOENT | EACCES

definition existsSync :: "('d, 'x) world_scheme \<Rightarrow> fpath \<Rightarrow> bool" where
  "existsSync w p = (p \<in> disk w)"

definition unlink :: "fpath \<Rightarrow> ('d, 'x) world_scheme \<Rightarrow> fs_error + ('d, 'x) world_scheme" where
  "unlink p w =
     (if p \<notin> disk w then Inl ENOENT
      else if p \<in> locked w then Inl EACCES
      else Inr (w\<lparr>disk := disk w - {p}\<rparr>))"

definition console_error :: "string \<Rightarrow> ('d, 'x) world_scheme \<Rightarrow> ('d, 'x) world_scheme" where
  "console_error line w = w\<lparr>console := console w @ [line]\<rparr>"

section \<open>The document store\<close>

text \<open>
  \<open>mongoose.Types.ObjectId.isValid\<close> on a string, for the driver generation the routers
  are written against (documents still have \<open>remove()\<close>): twelve characters, or twenty-four
  hexadecimal digits. \<open>findById\<close> casts the identifier the same way and raises a cast
  error on any other string. Documents are kept under the spelling of their identifier
  that requests use: two spellings of one identifier (upper and lower case digits, the
  twelve character form) are different keys here.
\<close>

definition hex_digit :: "char \<Rightarrow> bool" where
  "hex_digit c = (c \<in> set ''0123456789abcdefABCDEF'')"

definition isValid :: "string \<Rightarrow> bool" where
  "isValid i = (length i = 12 \<or> (length i = 24 \<and> list_all hex_digit i))"

definition findById :: "('d, 'x) world_scheme \<Rightarrow> string \<Rightarrow> exn + 'd option" where
  "findById w i = (if isValid i then Inr (map_of (collection w) i) else Inl (CastError i))"

definition put_doc :: "string \<Rightarrow> 'd \<Rightarrow> (string \<times> 'd) list \<Rightarrow> (string \<times> 'd) list" where
  "put_doc i d c =
     (if i \<in> fst ` set c then map (\<lambda>(j, e). if j = i then (j, d) else (j, e)) c
      else c @ [(i, d)])"

text \<open>
  \<open>doc.save()\<close>: the schema's validation first, then the write.
\<close>

definition save :: "('d \<Rightarrow> bool) \<Rightarrow> string \<Rightarrow> 'd \<Rightarrow> ('d, 'x) world_scheme
    \<Rightarrow> exn + ('d, 'x) world_scheme" where
  "save schema i d w =
     (if \<not> schema d then Inl ValidationError
      else case write_fault w of
        Some m \<Rightarrow> Inl (Error m)
      | None \<Rightarrow> Inr (w\<lparr>collection := put_doc i d (collection w)\<rparr>))"

text \<open>
  \<open>doc.remove()\<close> and \<open>Model.findByIdAndDelete\<close>.
\<close>

definition remove_doc :: "string \<Rightarrow> ('d, 'x) world_scheme \<Rightarrow> exn + ('d, 'x) world_scheme" where
  "remove_doc i w =
     (case write_fault w of
        Some m \<Rightarrow> Inl (Error m)
      | None \<Rightarrow> Inr (w\<lparr>collection := filter (\<lambda>(j, e). j \<noteq> i) (collection w)\<rparr>))"

text \<open>
  \<open>Promise.race([product.save(), timer])\<close> of the product create handler. A save that the
  schema rejects fails at once. A write that takes too long loses the race: the handler
  sees the timer's error, and the write, which the timer does not cancel, still ends as
  the database decides. The world returned with an error is the one in which the write
  has ended.
\<close>

definition racing_save :: "('d \<Rightarrow> bool) \<Rightarrow> string \<Rightarrow> 'd \<Rightarrow> ('d, 'x) world_scheme
    \<Rightarrow> (exn \<times> ('d, 'x) world_scheme) + ('d, 'x) world_scheme" where
  "racing_save schema i d w =
     (if schema d \<and> write_delay w
      then Inl (Error ''Database operation timed out'',
                case save schema i d w of Inr w' \<Rightarrow> w' | Inl late \<Rightarrow> w)
      else case save schema i d w of
             Inl error \<Rightarrow> Inl (error, w)
           | Inr w' \<Rightarrow> Inr w')"

section \<open>Disk uploads\<close>

text \<open>
  A file of a multipart request as the upload middleware sees it and hands it to the
  handler: the form field it came under, the name the storage engine chose for it, where
  it put it, its declared type and its size in bytes.
\<close>

record upfile =
  fieldname :: string
  filename :: string
  path :: string
  mimetype :: string
  file_size :: nat

text \<open>
  \<open>upload.array('images', 10)\<close> with \<open>limits: {fileSize: 5 * 1024 * 1024}\<close>. A file filter
  answers \<open>None\<close> for \<open>cb(null, true)\<close> and the message of its error for \<open>cb(new Error(...))\<close>;
  the product router has one, the blog router has none.
\<close>

definition maxCount :: nat where
  "maxCount = 10"

definition fileSize_limit :: nat where
  "fileSize_limit = 5 * 1024 * 1024"

definition product_fileFilter :: "upfile \<Rightarrow> string option" where
  "product_fileFilter file =
     (let allowedTypes = [''image/jpeg'', ''image/png'', ''image/gif'', ''image/webp''] in
      if mimetype file \<in> set allowedTypes then None
      else Some ''Invalid file type. Only JPEG, PNG, GIF, and WebP images are allowed.'')"

definition no_fileFilter :: "upfile \<Rightarrow> string option" where
  "no_fileFilter file = None"

text \<open>
  An error on its way to the error middleware: its name and its message.
\<close>

type_synonym thrown = "string \<times> string"

text \<open>
  The middleware is the \<open>multer\<close> library's, used as the routers configure it. It takes
  the files in the order of the request; \<open>n\<close> counts those taken so far. A file under another field than \<open>images\<close>, a file beyond the tenth and a file the
  filter refuses are not written; a file over the size limit is cut off while it is
  written. Any of these aborts the upload: the result is then \<open>Inl\<close> of the error and the
  files written so far, otherwise \<open>Inr\<close> of the files stored, which are all the files of
  the request.
\<close>

fun receive :: "(upfile \<Rightarrow> string option) \<Rightarrow> nat \<Rightarrow> upfile list
    \<Rightarrow> (thrown \<times> upfile list) + upfile list" where
  "receive fileFilter n [] = Inr []"
| "receive fileFilter n (file # rest) =
     (if fieldname file \<noteq> ''images'' \<or> maxCount \<le> n
      then Inl ((''MulterError'', ''Unexpected field''), [])
      else case fileFilter file of
             Some m \<Rightarrow> Inl ((''Error'', m), [])
           | None \<Rightarrow>
               if fileSize_limit < file_size file
               then Inl ((''MulterError'', ''File too large''), [file])
               else case receive fileFilter (Suc n) rest of
                      Inl (error, written) \<Rightarrow> Inl (error, file # written)
                    | Inr stored \<Rightarrow> Inr (file # stored))"

text \<open>
  The disk once the storage engine has written the given files below the destination.
\<close>

definition write_files :: "fpath \<Rightarrow> upfile list \<Rightarrow> ('d, 'x) world_scheme \<Rightarrow> ('d, 'x) world_scheme" where
  "write_files dest fs w = w\<lparr>disk := disk w \<union> (\<lambda>f. path_join dest (filename f)) ` set fs\<rparr>"

text \<open>
  An aborted upload unlinks what it wrote, ignoring a file whose unlink is refused.
\<close>

definition remove_written :: "fpath \<Rightarrow> upfile list \<Rightarrow> ('d, 'x) world_scheme \<Rightarrow> ('d, 'x) world_scheme" where
  "remove_written dest fs w =
     w\<lparr>disk := (disk w \<union> (\<lambda>f. path_join dest (filename f)) ` set fs)
                - ((\<lambda>f. path_join dest (filename f)) ` set fs - locked w)\<rparr>"

text \<open>
  \<open>upload.array\<close>: \<open>Inl\<close> when the upload was aborted and the error goes to the
  application's error middleware, \<open>Inr\<close> when every file is stored and \<open>next()\<close> is called
  with \<open>req.files\<close> the files of the request.
\<close>

definition upload_array :: "(upfile \<Rightarrow> string option) \<Rightarrow> fpath \<Rightarrow> upfile list
    \<Rightarrow> ('d, 'x) world_scheme \<Rightarrow> (thrown \<times> ('d, 'x) world_scheme) + ('d, 'x) world_scheme" where
  "upload_array fileFilter dest files w =
     (case receive fileFilter 0 files of
        Inl (error, written) \<Rightarrow> Inl (error, remove_written dest written w)
      | Inr stored \<Rightarrow> Inr (write_files dest stored w))"

text \<open>
  \<open>message.includes(part)\<close>.
\<close>

fun js_includes :: "string \<Rightarrow> string \<Rightarrow> bool" where
  "js_includes [] part = (part = [])"
| "js_includes (c # cs) part = (take (length part) (c # cs) = part \<or> js_includes cs part)"

text \<open>
  The error middleware of the application, \<open>app.use((err, req, res, next) => ...)\<close>,
  mounted after the routers: it logs the error and answers by the error's name. The
  errors of an aborted upload are named \<open>MulterError\<close> or \<open>Error\<close>.
\<close>

definition error_handler :: "thrown \<Rightarrow> ('d, 'x) world_scheme \<Rightarrow> ('d, 'x) world_scheme \<times> 'r response" where
  "error_handler err w =
     (let w1 = console_error ''Error details:'' w in
      if fst err = ''MongoServerError'' then (w1, reply 503 ''Database operation failed'')
      else if fst err = ''ValidationError'' then (w1, reply 400 ''Validation failed'')
      else if fst err = ''MongooseError'' \<and> js_includes (snd err) ''buffering timed out''
      then (w1, reply 504 ''Database operation timed out'')
      else (w1, reply 500 ''Something went wrong!''))"

section \<open>The blog router\<close>

text \<open>
  A blog document. \<open>readTime\<close> holds the number \<open>n\<close> of the stored text \<open>n min read\<close>.
\<close>

record blog =
  blog_title :: string
  blog_content :: string
  blog_category :: "string option"
  blog_date :: nat
  readTime :: nat
  blog_images :: "string list"

definition text_of :: "string option \<Rightarrow> string" where
  "text_of f = (case f of None \<Rightarrow> [] | Some s \<Rightarrow> s)"

definition blog_schema :: "blog \<Rightarrow> bool" where
  "blog_schema b = (blog_title b \<noteq> [] \<and> blog_content b \<noteq> [])"

definition read_minutes :: "string \<Rightarrow> nat" where
  "read_minutes content = (length content + 999) div 1000"

definition blog_ref :: "upfile \<Rightarrow> string" where
  "blog_ref file = ''/uploads/'' @ filename file"

text \<open>
  \<open>cleanupUnusedImages\<close>: the loop over \<open>imagesToDelete\<close>, then the function itself.
\<close>

fun cleanup_each :: "string list \<Rightarrow> ('d, 'x) world_scheme \<Rightarrow> ('d, 'x) world_scheme" where
  "cleanup_each [] w = w"
| "cleanup_each (img # imgs) w =
     (let imagePath = path_join public_dir img in
      if existsSync w imagePath then
        (case unlink imagePath w of
           Inr w' \<Rightarrow> cleanup_each imgs w'
         | Inl e \<Rightarrow> cleanup_each imgs (console_error ''Error deleting unused image:'' w))
      else cleanup_each imgs w)"

definition cleanupUnusedImages :: "string list \<Rightarrow> string list \<Rightarrow> ('d, 'x) world_scheme
    \<Rightarrow> ('d, 'x) world_scheme" where
  "cleanupUnusedImages oldImages newImages w =
     (let imagesToDelete = filter (\<lambda>img. img \<notin> set newImages) oldImages
      in cleanup_each imagesToDelete w)"

text \<open>
  \<open>router.post('/')\<close>: the handler, and the route with its middleware in the order
  they are registered (upload, validation, handler). \<open>now\<close> is \<open>Date.now()\<close> and \<open>oid\<close>
  the identifier the new document gets. \<open>blog_post_route\<close> is the whole route;
  \<open>blog_post\<close> is the route from the point where the upload middleware has taken every
  file of the request, which is what \<open>blog_post_route\<close> does for such a request.
\<close>

definition blog_create_handler :: "nat \<Rightarrow> string \<Rightarrow> upfile list \<Rightarrow> blog_body \<Rightarrow> blog world
    \<Rightarrow> blog world \<times> blog response" where
  "blog_create_handler now oid files body w =
     (let images = map blog_ref files;
          blog = \<lparr>blog_title = text_of (b_title body),
                  blog_content = text_of (b_content body),
                  blog_category = (case b_category body of None \<Rightarrow> Some ''corporate'' | Some c \<Rightarrow> Some c),
                  blog_date = now,
                  readTime = read_minutes (text_of (b_content body)),
                  blog_images = images\<rparr>
      in case save blog_schema oid blog w of
           Inr w' \<Rightarrow> (w', reply_doc 201 blog)
         | Inl error \<Rightarrow> (w, reply_error 400 error))"

definition blog_post :: "nat \<Rightarrow> string \<Rightarrow> upfile list \<Rightarrow> blog_body \<Rightarrow> blog world
    \<Rightarrow> blog world \<times> blog response" where
  "blog_post now oid files body w =
     (let w1 = write_files blog_uploads files w in
      case validateBlogPost body of
        Respond r \<Rightarrow> (w1, r)
      | Next \<Rightarrow> blog_create_handler now oid files body w1)"

definition blog_post_route :: "nat \<Rightarrow> string \<Rightarrow> upfile list \<Rightarrow> blog_body \<Rightarrow> blog world
    \<Rightarrow> blog world \<times> blog response" where
  "blog_post_route now oid files body w =
     (case upload_array no_fileFilter blog_uploads files w of
        Inl (error, w') \<Rightarrow> error_handler error w'
      | Inr w1 \<Rightarrow>
          (case validateBlogPost body of
             Respond r \<Rightarrow> (w1, r)
           | Next \<Rightarrow> blog_create_handler now oid files body w1))"

text \<open>
  \<open>router.put('/:id')\<close>: the handler, the route from the point where the files are
  taken, and the whole route.
\<close>

definition blog_update_handler :: "string \<Rightarrow> upfile list \<Rightarrow> blog_body \<Rightarrow> blog world
    \<Rightarrow> blog world \<times> blog response" where
  "blog_update_handler i files body w =
     (let newImages = map blog_ref files in
      case findById w i of
        Inl error \<Rightarrow> (w, reply_error 400 error)
      | Inr None \<Rightarrow> (w, reply 404 ''Blog not found'')
      | Inr (Some blog) \<Rightarrow>
          (let oldImages = blog_images blog;
               blog' = blog\<lparr>blog_title := text_of (b_title body),
                            blog_content := text_of (b_content body),
                            blog_category := b_category body,
                            readTime := read_minutes (text_of (b_content body)),
                            blog_images := blog_images blog @ newImages\<rparr>;
               w1 = cleanupUnusedImages oldImages (blog_images blog') w
           in case save blog_schema i blog' w1 of
                Inr w2 \<Rightarrow> (w2, reply_doc 200 blog')
              | Inl error \<Rightarrow> (w1, reply_error 400 error)))"

definition blog_put :: "string \<Rightarrow> upfile list \<Rightarrow> blog_body \<Rightarrow> blog world
    \<Rightarrow> blog world \<times> blog response" where
  "blog_put i files body w =
     (let w1 = write_files blog_uploads files w in
      case validateBlogPost body of
        Respond r \<Rightarrow> (w1, r)
      | Next \<Rightarrow> blog_update_handler i files body w1)"

definition blog_put_route :: "string \<Rightarrow> upfile list \<Rightarrow> blog_body \<Rightarrow> blog world
    \<Rightarrow> blog world \<times> blog response" where
  "blog_put_route i files body w =
     (case upload_array no_fileFilter blog_uploads files w of
        Inl (error, w') \<Rightarrow> error_handler error w'
      | Inr w1 \<Rightarrow>
          (case validateBlogPost body of
             Respond r \<Rightarrow> (w1, r)
           | Next \<Rightarrow> blog_update_handler i files body w1))"

text \<open>
  \<open>router.delete('/:id')\<close>.
\<close>

definition blog_delete :: "string \<Rightarrow> blog world \<Rightarrow> blog world \<times> blog response" where
  "blog_delete i w =
     (case findById w i of
        Inl error \<Rightarrow> (w, reply_error 500 error)
      | Inr None \<Rightarrow> (w, reply 404 ''Blog not found'')
      | Inr (Some blog) \<Rightarrow>
          (let w1 = cleanupUnusedImages (blog_images blog) [] w in
           case remove_doc i w1 of
             Inr w2 \<Rightarrow> (w2, reply 200 ''Blog deleted'')
           | Inl error \<Rightarrow> (w1, reply_error 500 error)))"

section \<open>Paginated listing\<close>

text \<open>
  A listing's JSON body. \<open>totalPages\<close> is \<open>None\<close> where \<open>Math.ceil(total / limit)\<close> is not a
  finite number (a limit of zero), which JSON writes as \<open>null\<close>. The query parameters
  \<open>page\<close> and \<open>limit\<close> are absent (\<open>None\<close>) or decimal numerals.
\<close>

record 'd listing =
  items :: "'d list"
  currentPage :: nat
  totalPages :: "nat option"
  totalCount :: nat

text \<open>
  \<open>sort({key: -1})\<close>: most recent first.
\<close>

definition sort_desc :: "('d \<Rightarrow> nat) \<Rightarrow> 'd list \<Rightarrow> 'd list" where
  "sort_desc key ds = rev (sort_key key ds)"

text \<open>
  \<open>skip(n).limit(m)\<close> on a sorted cursor; a limit of zero is no limit.
\<close>

definition skip_limit :: "nat \<Rightarrow> nat \<Rightarrow> 'd list \<Rightarrow> 'd list" where
  "skip_limit n m ds = (if m = 0 then drop n ds else take m (drop n ds))"

definition ceil_div :: "nat \<Rightarrow> nat \<Rightarrow> nat option" where
  "ceil_div n limit = (if limit = 0 then None else Some ((n + limit - 1) div limit))"

text \<open>
  The two queries of a listing, \<open>Model.find(query).sort(...).skip(...).limit(...)\<close> and
  \<open>Model.countDocuments(query)\<close>. Each reads the collection and leaves the world as it is.
\<close>

definition find_page :: "('d \<Rightarrow> bool) \<Rightarrow> ('d \<Rightarrow> nat) \<Rightarrow> nat \<Rightarrow> nat \<Rightarrow> ('d, 'x) world_scheme
    \<Rightarrow> 'd list \<times> ('d, 'x) world_scheme" where
  "find_page query key skip limit w =
     (skip_limit skip limit (sort_desc key (filter query (map snd (collection w)))), w)"

definition countDocuments :: "('d \<Rightarrow> bool) \<Rightarrow> ('d, 'x) world_scheme
    \<Rightarrow> nat \<times> ('d, 'x) world_scheme" where
  "countDocuments query w = (length (filter query (map snd (collection w))), w)"

text \<open>
  \<open>Promise.all\<close> of two operations: both are started and the results are handed on, in
  the order of the array, once both have ended. In \<open>promise_all\<close> the first operation
  ends first, in \<open>promise_all_reversed\<close> the second.
\<close>

definition promise_all :: "('w \<Rightarrow> 'a \<times> 'w) \<Rightarrow> ('w \<Rightarrow> 'b \<times> 'w) \<Rightarrow> 'w \<Rightarrow> ('a \<times> 'b) \<times> 'w" where
  "promise_all f g w = (let (a, w1) = f w; (b, w2) = g w1 in ((a, b), w2))"

definition promise_all_reversed :: "('w \<Rightarrow> 'a \<times> 'w) \<Rightarrow> ('w \<Rightarrow> 'b \<times> 'w) \<Rightarrow> 'w
    \<Rightarrow> ('a \<times> 'b) \<times> 'w" where
  "promise_all_reversed f g w = (let (b, w1) = g w; (a, w2) = f w1 in ((a, b), w2))"

text \<open>
  The blog listing: \<open>parseInt(req.query.page) || 1\<close> and \<open>parseInt(req.query.limit) || 10\<close>
  replace an absent parameter and a zero by the default.
\<close>

definition or_default :: "nat option \<Rightarrow> nat \<Rightarrow> nat" where
  "or_default q d = (case q of None \<Rightarrow> d | Some n \<Rightarrow> if n = 0 then d else n)"

definition blog_list :: "nat option \<Rightarrow> nat option \<Rightarrow> blog world \<Rightarrow> blog listing response" where
  "blog_list qpage qlimit w =
     (let page = or_default qpage 1;
          limit = or_default qlimit 10;
          skip = (page - 1) * limit;
          ((blogs, totalBlogs), w') =
            promise_all (find_page (\<lambda>b. True) blog_date skip limit) (countDocuments (\<lambda>b. True)) w
      in reply_doc 200 \<lparr>items = blogs, currentPage = page,
           totalPages = ceil_div totalBlogs limit, totalCount = totalBlogs\<rparr>)"

section \<open>The product router, images on disk\<close>

text \<open>
  A product document; \<open>'i\<close> is the type of an image reference, a file name here. The
  price is \<open>None\<close> for \<open>NaN\<close>.
\<close>

record 'i product =
  title :: string
  tagline :: "string option"
  price :: "real option"
  category :: "string option"
  description :: string
  features :: "string list"
  specifications :: "string list"
  tags :: "string list"
  images :: "'i list"
  createdAt :: nat
  updatedAt :: nat

definition product_schema :: "'i product \<Rightarrow> bool" where
  "product_schema p =
     (title p \<noteq> [] \<and> price p \<noteq> None \<and> \<not> falsy (category p) \<and> description p \<noteq> [])"

definition parse_price :: "js \<Rightarrow> price_field \<Rightarrow> real option" where
  "parse_price lang p =
     (case p of PUndefined \<Rightarrow> None | PString s \<Rightarrow> js_parseFloat lang s | PNumber r \<Rightarrow> Some r)"

text \<open>
  \<open>f ? f.split(',').map(x => x.trim()) : []\<close>.
\<close>

definition comma_list :: "js \<Rightarrow> string option \<Rightarrow> string list" where
  "comma_list lang f =
     (if falsy f then [] else map (js_trim lang) (js_split (CHR '','') (text_of f)))"

text \<open>
  \<open>router.get('/:id')\<close>.
\<close>

definition product_get :: "string \<Rightarrow> ('i product, 'x) world_scheme \<Rightarrow> 'i product response" where
  "product_get i w =
     (if \<not> isValid i then reply 400 ''Invalid product ID format''
      else case findById w i of
        Inl error \<Rightarrow> reply 500 ''Failed to fetch product''
      | Inr None \<Rightarrow> reply 404 ''Product not found''
      | Inr (Some product) \<Rightarrow> reply_doc 200 product)"

text \<open>
  \<open>router.get('/')\<close>. The defaults replace an absent parameter only; a page of zero makes
  \<open>skip\<close> negative, which the database refuses.
\<close>

definition product_query :: "string option \<Rightarrow> 'i product \<Rightarrow> bool" where
  "product_query qcategory p =
     (if \<not> falsy qcategory \<and> qcategory \<noteq> Some ''all'' then category p = qcategory else True)"

definition product_list :: "string option \<Rightarrow> nat option \<Rightarrow> nat option
    \<Rightarrow> ('i product, 'x) world_scheme \<Rightarrow> 'i product listing response" where
  "product_list qcategory qpage qlimit w =
     (let page = (case qpage of None \<Rightarrow> 1 | Some n \<Rightarrow> n);
          limit = (case qlimit of None \<Rightarrow> 10 | Some n \<Rightarrow> n);
          skip = (int page - 1) * int limit;
          query = product_query qcategory
      in if skip < 0 then reply 500 ''Failed to fetch products''
         else
           (let ((products, totalProducts), w') =
                  promise_all (find_page query createdAt (nat skip) limit) (countDocuments query) w
            in reply_doc 200 \<lparr>items = products, currentPage = page,
                 totalPages = ceil_div totalProducts limit, totalCount = totalProducts\<rparr>))"

text \<open>
  \<open>router.post('/')\<close>: the loop of the \<open>catch\<close> block over \<open>uploadedFiles\<close>, the handler,
  the route from the point where the upload middleware has taken every file of the
  request, and the whole route.
\<close>

fun unlink_uploaded :: "upfile list \<Rightarrow> ('d, 'x) world_scheme \<Rightarrow> ('d, 'x) world_scheme" where
  "unlink_uploaded [] w = w"
| "unlink_uploaded (file # files) w =
     (let filePath = path_join product_uploads (filename file) in
      case unlink filePath w of
        Inr w' \<Rightarrow> unlink_uploaded files w'
      | Inl unlinkError \<Rightarrow> unlink_uploaded files (console_error ''Error deleting file:'' w))"

definition message_or :: "exn \<Rightarrow> string \<Rightarrow> msg" where
  "message_or error d = (if error_message error = Text [] then Text d else error_message error)"

definition product_create_handler :: "js \<Rightarrow> nat \<Rightarrow> string \<Rightarrow> upfile list \<Rightarrow> product_body
    \<Rightarrow> string product world \<Rightarrow> string product world \<times> string product response" where
  "product_create_handler lang now oid files body w =
     (let uploadedFiles = files;
          images = map filename uploadedFiles;
          product = \<lparr>title = text_of (p_title body),
                     tagline = p_tagline body,
                     price = parse_price lang (p_price body),
                     category = p_category body,
                     description = text_of (p_description body),
                     features = comma_list lang (p_features body),
                     specifications = comma_list lang (p_specifications body),
                     tags = comma_list lang (p_tags body),
                     images = images,
                     createdAt = now,
                     updatedAt = now\<rparr>
      in case racing_save product_schema oid product w of
           Inr w' \<Rightarrow> (w', reply_doc 201 product)
         | Inl (error, w0) \<Rightarrow>
             (let w1 = unlink_uploaded uploadedFiles w0;
                  w2 = console_error ''Product creation error:'' w1;
                  statusCode = (if error_message error = Text ''Database operation timed out''
                                then 504 else 500)
              in (w2, \<lparr>status = statusCode,
                       message = message_or error ''Failed to create product'',
                       payload = None\<rparr>)))"

definition product_post :: "js \<Rightarrow> nat \<Rightarrow> string \<Rightarrow> upfile list \<Rightarrow> product_body
    \<Rightarrow> string product world \<Rightarrow> string product world \<times> string product response" where
  "product_post lang now oid files body w =
     (let w1 = write_files product_uploads files w in
      case validateProduct lang body of
        Respond r \<Rightarrow> (w1, r)
      | Next \<Rightarrow> product_create_handler lang now oid files body w1)"

definition product_post_route :: "js \<Rightarrow> nat \<Rightarrow> string \<Rightarrow> upfile list \<Rightarrow> product_body
    \<Rightarrow> string product world \<Rightarrow> string product world \<times> string product response" where
  "product_post_route lang now oid files body w =
     (case upload_array product_fileFilter product_uploads files w of
        Inl (error, w') \<Rightarrow> error_handler error w'
      | Inr w1 \<Rightarrow>
          (case validateProduct lang body of
             Respond r \<Rightarrow> (w1, r)
           | Next \<Rightarrow> product_create_handler lang now oid files body w1))"

text \<open>
  \<open>router.delete('/:id')\<close>: the loop over \<open>product.images\<close>, then the handler.
\<close>

fun delete_images :: "string list \<Rightarrow> ('d, 'x) world_scheme \<Rightarrow> ('d, 'x) world_scheme" where
  "delete_images [] w = w"
| "delete_images (imagePath # rest) w =
     (let fullPath = path_join public_dir imagePath in
      if existsSync w fullPath then
        (case unlink fullPath w of
           Inr w' \<Rightarrow> delete_images rest w'
         | Inl unlinkError \<Rightarrow> delete_images rest (console_error ''Error deleting image file:'' w))
      else delete_images rest w)"

definition product_delete :: "string \<Rightarrow> string product world
    \<Rightarrow> string product world \<times> string product response" where
  "product_delete i w =
     (if \<not> isValid i then (w, reply 400 ''Invalid product ID format'')
      else case findById w i of
        Inl error \<Rightarrow> (console_error ''Error deleting product:'' w, reply 500 ''Failed to delete product'')
      | Inr None \<Rightarrow> (w, reply 404 ''Product not found'')
      | Inr (Some product) \<Rightarrow>
          (let w1 = delete_images (images product) w in
           case remove_doc i w1 of
             Inr w2 \<Rightarrow> (w2, reply 200 ''Product deleted successfully'')
           | Inl error \<Rightarrow>
               (console_error ''Error deleting product:'' w1, reply 500 ''Failed to delete product'')))"

text \<open>
  \<open>router.put('/:id')\<close>: the handler, the route from the point where the files are
  taken, and the whole route.
\<close>

definition product_update_handler :: "js \<Rightarrow> nat \<Rightarrow> string \<Rightarrow> upfile list \<Rightarrow> product_body
    \<Rightarrow> string product world \<Rightarrow> string product world \<times> string product response" where
  "product_update_handler lang now i files body w =
     (case findById w i of
        Inl error \<Rightarrow>
          (console_error ''Error updating product:'' w,
           \<lparr>status = 500, message = message_or error ''Failed to update product'', payload = None\<rparr>)
      | Inr None \<Rightarrow> (w, reply 404 ''Product not found'')
      | Inr (Some product) \<Rightarrow>
          (let newImages = map filename files;
               updatedImages = images product @ newImages;
               product' = product\<lparr>title := text_of (p_title body),
                                  tagline := p_tagline body,
                                  price := parse_price lang (p_price body),
                                  category := p_category body,
                                  description := text_of (p_description body),
                                  features := comma_list lang (p_features body),
                                  specifications := comma_list lang (p_specifications body),
                                  tags := comma_list lang (p_tags body),
                                  images := updatedImages,
                                  updatedAt := now\<rparr>
           in case save product_schema i product' w of
                Inr w' \<Rightarrow> (w', reply_doc 200 product')
              | Inl error \<Rightarrow>
                  (console_error ''Error updating product:'' w,
                   \<lparr>status = 500, message = message_or error ''Failed to update product'',
                    payload = None\<rparr>)))"

definition product_put :: "js \<Rightarrow> nat \<Rightarrow> string \<Rightarrow> upfile list \<Rightarrow> product_body
    \<Rightarrow> string product world \<Rightarrow> string product world \<times> string product response" where
  "product_put lang now i files body w =
     (let w1 = write_files product_uploads files w in
      case validateProduct lang body of
        Respond r \<Rightarrow> (w1, r)
      | Next \<Rightarrow> product_update_handler lang now i files body w1)"

definition product_put_route :: "js \<Rightarrow> nat \<Rightarrow> string \<Rightarrow> upfile list \<Rightarrow> product_body
    \<Rightarrow> string product world \<Rightarrow> string product world \<times> string product response" where
  "product_put_route lang now i files body w =
     (case upload_array product_fileFilter product_uploads files w of
        Inl (error, w') \<Rightarrow> error_handler error w'
      | Inr w1 \<Rightarrow>
          (case validateProduct lang body of
             Respond r \<Rightarrow> (w1, r)
           | Next \<Rightarrow> product_update_handler lang now i files body w1))"

section \<open>The product router, images in the remote store\<close>

text \<open>
  An image reference of the remote variant, and the world extended by the remote store:
  the identifiers of the assets it holds, the identifiers whose \<open>destroy\<close> call fails, and
  what \<open>cloudinary.uploader.upload\<close> answers for a local path (\<open>None\<close>: the upload fails).
  Destroying an asset the store does not hold succeeds.
\<close>

record image =
  url :: string
  public_id :: string

record 'd cloud_world = "'d world" +
  assets :: "string set"
  destroy_fault :: "string set"
  upload_result :: "string \<Rightarrow> image option"

definition destroy :: "string \<Rightarrow> 'd cloud_world \<Rightarrow> exn + 'd cloud_world" where
  "destroy pid w =
     (if pid \<in> destroy_fault w then Inl (Error ''destroy failed'')
      else Inr (w\<lparr>assets := assets w - {pid}\<rparr>))"

text \<open>
  \<open>deletedImages\<close> of the request body: absent, one string, or an array of strings.
\<close>

datatype field = Absent | Single string | Many "string list"

record cloud_body = product_body +
  p_deletedImages :: field

definition json_list :: "js \<Rightarrow> string option \<Rightarrow> string list option" where
  "json_list lang f = (if falsy f then Some [] else js_JSON_parse lang (text_of f))"

text \<open>
  The deletions of \<open>router.put('/:id')\<close>. \<open>deletedImages.map\<close> looks every identifier up in
  the image list as it was and starts its \<open>destroy\<close> call; each call that succeeds then
  filters the identifier out of \<open>product.images\<close>, each that fails is logged. The callbacks
  commute, so they run in list order here. The first argument is the image list at the
  time of the \<open>map\<close>, the pair holds \<open>product.images\<close> and the world.
\<close>

fun delete_marked :: "image list \<Rightarrow> string list \<Rightarrow> image list \<times> 'd cloud_world
    \<Rightarrow> image list \<times> 'd cloud_world" where
  "delete_marked orig [] (imgs, w) = (imgs, w)"
| "delete_marked orig (imageId # ids) (imgs, w) =
     (case find (\<lambda>img. public_id img = imageId) orig of
        None \<Rightarrow> delete_marked orig ids (imgs, w)
      | Some found \<Rightarrow>
          (case destroy (public_id found) w of
             Inr w' \<Rightarrow> delete_marked orig ids (filter (\<lambda>img. public_id img \<noteq> imageId) imgs, w')
           | Inl error \<Rightarrow> delete_marked orig ids (imgs, console_error ''Error deleting image'' w)))"

text \<open>
  The identifiers of a removal list whose \<open>destroy\<close> call is made and succeeds.
\<close>

definition destroyed :: "image list \<Rightarrow> string list \<Rightarrow> 'd cloud_world \<Rightarrow> string set" where
  "destroyed orig ids w = {i \<in> set ids. i \<in> public_id ` set orig \<and> i \<notin> destroy_fault w}"

text \<open>
  The uploads of the request: every upload is started; the result is \<open>None\<close> when one of
  them failed (\<open>Promise.all\<close> rejects), and the assets of those that succeeded exist
  either way.
\<close>

fun upload_all :: "upfile list \<Rightarrow> 'd cloud_world \<Rightarrow> image list option \<times> 'd cloud_world" where
  "upload_all [] w = (Some [], w)"
| "upload_all (file # files) w =
     (case upload_result w (path file) of
        None \<Rightarrow> (None, snd (upload_all files w))
      | Some result \<Rightarrow>
          (let (rest, w') = upload_all files (w\<lparr>assets := assets w \<union> {public_id result}\<rparr>)
           in (case rest of None \<Rightarrow> None | Some rs \<Rightarrow> Some (result # rs), w')))"

definition cloud_failure :: "string \<Rightarrow> string \<Rightarrow> 'd cloud_world
    \<Rightarrow> 'd cloud_world \<times> image product response" where
  "cloud_failure line m w = (console_error line w, reply 500 m)"

definition cloud_update_handler :: "js \<Rightarrow> nat \<Rightarrow> string \<Rightarrow> upfile list \<Rightarrow> cloud_body
    \<Rightarrow> image product cloud_world \<Rightarrow> image product cloud_world \<times> image product response" where
  "cloud_update_handler lang now i files body w =
     (case findById w i of
        Inl error \<Rightarrow> cloud_failure ''Error updating product:'' ''Failed to update product'' w
      | Inr None \<Rightarrow> (w, reply 404 ''Product not found'')
      | Inr (Some product) \<Rightarrow>
          (let (images1, w1) =
                 (case p_deletedImages body of
                    Many deletedImages \<Rightarrow> delete_marked (images product) deletedImages (images product, w)
                  | _ \<Rightarrow> (images product, w));
               (uploaded, w2) = upload_all files w1
           in case uploaded of
                None \<Rightarrow> cloud_failure ''Error updating product:'' ''Failed to update product'' w2
              | Some newImages \<Rightarrow>
                  (case (json_list lang (p_features body), json_list lang (p_specifications body),
                         json_list lang (p_tags body)) of
                     (Some fs, Some ss, Some ts) \<Rightarrow>
                       (let product' = product\<lparr>title := text_of (p_title body),
                                              tagline := p_tagline body,
                                              price := parse_price lang (p_price body),
                                              category := p_category body,
                                              description := text_of (p_description body),
                                              features := fs,
                                              specifications := ss,
                                              tags := ts,
                                              images := images1 @ newImages,
                                              updatedAt := now\<rparr>
                        in case save product_schema i product' w2 of
                             Inr w3 \<Rightarrow>
                               (w3, \<lparr>status = 200, message = Text ''Product updated successfully'',
                                     payload = Some product'\<rparr>)
                           | Inl error \<Rightarrow>
                               cloud_failure ''Error updating product:'' ''Failed to update product'' w2)
                   | _ \<Rightarrow> cloud_failure ''Error updating product:'' ''Failed to update product'' w2)))"

text \<open>
  The route: validation, then the handler. Its upload middleware comes from
  \<open>config/cloudinary\<close>, which is not part of the sources; \<open>files\<close> is what it hands on.
\<close>

definition cloud_put :: "js \<Rightarrow> nat \<Rightarrow> string \<Rightarrow> upfile list \<Rightarrow> cloud_body
    \<Rightarrow> image product cloud_world \<Rightarrow> image product cloud_world \<times> image product response" where
  "cloud_put lang now i files body w =
     (case validateProduct lang body of
        Respond r \<Rightarrow> (w, r)
      | Next \<Rightarrow> cloud_update_handler lang now i files body w)"

text \<open>
  \<open>router.delete('/:id')\<close> of the remote variant: every image with an identifier is
  destroyed, a failure is logged, then the document is removed.
\<close>

fun destroy_images :: "image list \<Rightarrow> 'd cloud_world \<Rightarrow> 'd cloud_world" where
  "destroy_images [] w = w"
| "destroy_images (img # rest) w =
     (if public_id img \<noteq> [] then
        (case destroy (public_id img) w of
           Inr w' \<Rightarrow> destroy_images rest w'
         | Inl error \<Rightarrow> destroy_images rest (console_error ''Error deleting image'' w))
      else destroy_images rest w)"

definition cloud_delete :: "string \<Rightarrow> image product cloud_world
    \<Rightarrow> image product cloud_world \<times> image product response" where
  "cloud_delete i w =
     (case findById w i of
        Inl error \<Rightarrow> cloud_failure ''Error deleting product:'' ''Failed to delete product'' w
      | Inr None \<Rightarrow> (w, reply 404 ''Product not found'')
      | Inr (Some product) \<Rightarrow>
          (let w1 = destroy_images (images product) w in
           case remove_doc i w1 of
             Inr w2 \<Rightarrow> (w2, reply 200 ''Product deleted successfully'')
           | Inl error \<Rightarrow> cloud_failure ''Error deleting product:'' ''Failed to delete product'' w1))"

section \<open>The enquiry router\<close>

record enquiry_body =
  e_name :: "string option"
  e_email :: "string option"
  e_phone :: "string option"
  e_companyName :: "string option"
  e_message :: "string option"
  e_productName :: "string option"
  e_to :: "string option"
  e_formType :: "string option"

text \<open>
  The message handed to \<open>transporter.sendMail\<close>. \<open>html\<close> lists the values the template
  interpolates, in the order they appear in it; an absent field is written \<open>undefined\<close>.
\<close>

record mail =
  mail_from :: "string option"
  mail_to :: string
  subject :: string
  html :: "string list"

record mail_error =
  err_code :: "string option"
  err_response :: "string option"
  err_responseCode :: "nat option"

datatype enquiry_message = Plain string | SmtpError "string option" nat

record enquiry_response =
  e_status :: nat
  e_reply :: enquiry_message

text \<open>
  The environment of the mailer: \<open>process.env.EMAIL_USER\<close> and \<open>EMAIL_PASSWORD\<close>, what the
  mail relay answers for a message, and the messages handed to it so far.
\<close>

record mailer =
  EMAIL_USER :: "string option"
  EMAIL_PASSWORD :: "string option"
  sendMail :: "mail \<Rightarrow> mail_error + string"
  outbox :: "mail list"

definition interpolate :: "string option \<Rightarrow> string" where
  "interpolate f = (case f of None \<Rightarrow> ''undefined'' | Some s \<Rightarrow> s)"

definition missing_fields :: "enquiry_body \<Rightarrow> bool" where
  "missing_fields body =
     (falsy (e_name body) \<or> falsy (e_email body) \<or> falsy (e_phone body) \<or> falsy (e_message body))"

definition mailOptions :: "mailer \<Rightarrow> enquiry_body \<Rightarrow> mail" where
  "mailOptions env body =
     \<lparr>mail_from = EMAIL_USER env,
      mail_to = (if falsy (e_to body) then ''info@bombaygifthouse.com'' else text_of (e_to body)),
      subject = (if e_formType body = Some ''contact'' then ''New Contact Form Submission''
                 else if \<not> falsy (e_productName body)
                 then ''New Enquiry for '' @ text_of (e_productName body)
                 else ''New Enquiry''),
      html = [interpolate (e_name body), interpolate (e_email body), interpolate (e_phone body),
              (if falsy (e_companyName body) then ''Not provided'' else text_of (e_companyName body)),
              interpolate (e_message body)]
             @ (if \<not> falsy (e_productName body) then [text_of (e_productName body)] else [])\<rparr>"

text \<open>
  The handler after its validation: the check of the mail configuration, the
  composition of the message and the call of the mail relay, with the \<open>catch\<close> block's
  choice of an error message.
\<close>

definition send_step :: "mailer \<Rightarrow> enquiry_body \<Rightarrow> mailer \<times> enquiry_response" where
  "send_step env body =
     (if falsy (EMAIL_USER env) \<or> falsy (EMAIL_PASSWORD env)
      then (env, \<lparr>e_status = 500, e_reply = Plain ''Email service not configured properly''\<rparr>)
      else
        (let options = mailOptions env body;
             env' = env\<lparr>outbox := outbox env @ [options]\<rparr>
         in case sendMail env options of
              Inr info \<Rightarrow> (env', \<lparr>e_status = 200, e_reply = Plain ''Form submitted successfully''\<rparr>)
            | Inl error \<Rightarrow>
                (env', \<lparr>e_status = 500,
                        e_reply =
                          (if err_code error = Some ''EAUTH''
                           then Plain ''Email authentication failed. Please check credentials.''
                           else if err_code error = Some ''ESOCKET''
                           then Plain ''Network error while sending email.''
                           else case err_responseCode error of
                                  Some c \<Rightarrow> if c = 0 then Plain ''Failed to submit form''
                                            else SmtpError (err_response error) c
                                | None \<Rightarrow> Plain ''Failed to submit form'')\<rparr>)))"

definition enquiry_post :: "mailer \<Rightarrow> enquiry_body \<Rightarrow> mailer \<times> enquiry_response" where
  "enquiry_post env body =
     (if e_formType body = Some ''contact'' \<and> missing_fields body
      then (env, \<lparr>e_status = 400, e_reply = Plain ''Required fields are missing for contact form''\<rparr>)
      else if e_formType body = Some ''enquiry'' \<and> missing_fields body
      then (env, \<lparr>e_status = 400, e_reply = Plain ''Required fields are missing''\<rparr>)
      else send_step env body)"

section \<open>Notions used in the statements\<close>

text \<open>
  The document a response carries, as a list (empty when it carries none), and the
  listing it carries.
\<close>

definition sent :: "'d response \<Rightarrow> 'd list" where
  "sent r = (case payload r of None \<Rightarrow> [] | Some d \<Rightarrow> [d])"

definition listed :: "'d listing response \<Rightarrow> 'd listing" where
  "listed r = (case payload r of Some l \<Rightarrow> l | None \<Rightarrow> \<lparr>items = [], currentPage = 0, totalPages = None, totalCount = 0\<rparr>)"

text \<open>
  The document the product create handler builds from a request, and the document the
  blog update handler turns a stored post into.
\<close>

definition created_product :: "js \<Rightarrow> nat \<Rightarrow> upfile list \<Rightarrow> product_body \<Rightarrow> string product" where
  "created_product lang now files body =
     \<lparr>title = text_of (p_title body), tagline = p_tagline body,
      price = parse_price lang (p_price body), category = p_category body,
      description = text_of (p_description body), features = comma_list lang (p_features body),
      specifications = comma_list lang (p_specifications body), tags = comma_list lang (p_tags body),
      images = map filename files, createdAt = now, updatedAt = now\<rparr>"

definition updated_blog :: "blog \<Rightarrow> upfile list \<Rightarrow> blog_body \<Rightarrow> blog" where
  "updated_blog blog files body =
     blog\<lparr>blog_title := text_of (b_title body), blog_content := text_of (b_content body),
          blog_category := b_category body, readTime := read_minutes (text_of (b_content body)),
          blog_images := blog_images blog @ map blog_ref files\<rparr>"



text \<open>
  The files of a request that the upload middleware takes: at most ten, each under
  the field \<open>images\<close>, accepted by the route's file filter and within the size limit.
\<close>

definition taken :: "(upfile \<Rightarrow> string option) \<Rightarrow> upfile list \<Rightarrow> bool" where
  "taken fileFilter files =
     (length files \<le> maxCount
      \<and> list_all (\<lambda>f. fieldname f = ''images'' \<and> fileFilter f = None
            \<and> file_size f \<le> fileSize_limit) files)"

text \<open>
  What a route does with a request whose upload is aborted: the error middleware logs
  one line and answers 500; the validator and the handler do not run, no document
  changes, and nothing is on disk that was not there before or is locked.
\<close>

definition refused_by :: "('d, 'x) world_scheme \<times> 'r response \<Rightarrow> ('d, 'x) world_scheme \<Rightarrow> bool" where
  "refused_by result w =
     (snd result = reply 500 ''Something went wrong!''
      \<and> collection (fst result) = collection w
      \<and> console (fst result) = console w @ [''Error details:'']
      \<and> disk (fst result) \<subseteq> disk w \<union> locked w)"

section \<open>Sample requests\<close>

text \<open>
  Concrete inputs on which the theorems below are exercised. \<open>sample_js\<close> gives the
  language's conversions on the few strings the samples use.
\<close>

definition sample_js :: js where
  "sample_js =
     \<lparr>js_Number = (\<lambda>s. if s = ''0'' then Some 0 else if s = ''0.01'' then Some (1/100) else None),
      js_parseFloat = (\<lambda>s. if s = ''0'' then Some 0 else if s = ''0.01'' then Some (1/100) else None),
      js_JSON_parse = (\<lambda>s. if s = ''[]'' then Some [] else None),
      js_trim = (\<lambda>s. s)\<rparr>"

definition sample_product_body :: "string \<Rightarrow> string \<Rightarrow> price_field \<Rightarrow> product_body" where
  "sample_product_body t d p =
     \<lparr>p_title = Some t, p_tagline = None, p_price = p, p_category = Some ''gifts'',
      p_description = Some d, p_features = None, p_specifications = None, p_tags = None\<rparr>"

definition sample_post :: "string \<Rightarrow> string \<Rightarrow> blog_body" where
  "sample_post t c = \<lparr>b_title = Some t, b_content = Some c, b_category = None\<rparr>"

definition sample_blog :: "nat \<Rightarrow> string \<times> blog" where
  "sample_blog n =
     (replicate n CHR ''a'',
      \<lparr>blog_title = ''post'', blog_content = ''0123456789'', blog_category = Some ''corporate'',
       blog_date = n, readTime = 1, blog_images = []\<rparr>)"

definition sample_product :: "nat \<Rightarrow> string \<times> string product" where
  "sample_product n =
     (replicate n CHR ''a'',
      \<lparr>title = ''gift'', tagline = None, price = Some 1, category = Some ''gifts'',
       description = ''0123456789'', features = [], specifications = [], tags = [],
       images = [], createdAt = n, updatedAt = n\<rparr>)"

definition fifteen :: "nat list" where
  "fifteen = [3, 1, 4, 15, 9, 2, 6, 5, 8, 7, 10, 12, 11, 14, 13]"

definition empty_world :: "'d world" where
  "empty_world =
     \<lparr>disk = {}, locked = {}, console = [], collection = [], write_fault = None,
      write_delay = False\<rparr>"

definition sample_mailer :: mailer where
  "sample_mailer = \<lparr>EMAIL_USER = Some ''shop@example.org'', EMAIL_PASSWORD = Some ''secret'',
     sendMail = (\<lambda>m. Inr ''message-1''), outbox = []\<rparr>"

definition blank_enquiry :: "string option \<Rightarrow> enquiry_body" where
  "blank_enquiry t = \<lparr>e_name = None, e_email = None, e_phone = None, e_companyName = None,
     e_message = None, e_productName = None, e_to = None, e_formType = t\<rparr>"

definition sample_image :: "string \<Rightarrow> image" where
  "sample_image i = \<lparr>url = ''https://res.example.org/'' @ i, public_id = i\<rparr>"

definition sample_cloud_product :: "image product" where
  "sample_cloud_product =
     \<lparr>title = ''gift'', tagline = None, price = Some 1, category = Some ''gifts'',
      description = ''0123456789'', features = [], specifications = [], tags = [],
      images = [sample_image ''a'', sample_image ''b'', sample_image ''c''],
      createdAt = 1, updatedAt = 1\<rparr>"

definition sample_id :: string where
  "sample_id = ''0123456789abcdef01234567''"

definition sample_cloud :: "image product cloud_world" where
  "sample_cloud =
     \<lparr>disk = {}, locked = {}, console = [], collection = [(sample_id, sample_cloud_product)],
      write_fault = None, write_delay = False, assets = {''a'', ''b'', ''c''},
      destroy_fault = {''b''},
      upload_result = (\<lambda>p. if p = ''/tmp/d.png'' then Some (sample_image ''d'') else None)\<rparr>"

definition sample_cloud_body :: "field \<Rightarrow> cloud_body" where
  "sample_cloud_body marked =
     \<lparr>p_title = Some ''gift'', p_tagline = None, p_price = PString ''0.01'',
      p_category = Some ''gifts'', p_description = Some ''0123456789'', p_features = None,
      p_specifications = None, p_tags = None, p_deletedImages = marked\<rparr>"

definition sample_upload :: upfile where
  "sample_upload =
     \<lparr>fieldname = ''images'', filename = ''d.png'', path = ''/tmp/d.png'',
      mimetype = ''image/png'', file_size = 2048\<rparr>"

definition sample_file :: "string \<Rightarrow> upfile" where
  "sample_file name =
     \<lparr>fieldname = ''images'', filename = name, path = ''public/uploads/products/'' @ name,
      mimetype = ''image/png'', file_size = 2048\<rparr>"

definition sample_blog_world :: "blog world" where
  "sample_blog_world =
     \<lparr>disk = {[''public'', ''uploads'', ''a.png''], [''public'', ''uploads'', ''b.png''],
              [''public'', ''uploads'', ''c.png'']},
      locked = {}, console = [],
      collection = [(sample_id,
        \<lparr>blog_title = ''post'', blog_content = ''0123456789'', blog_category = Some ''corporate'',
         blog_date = 1, readTime = 1,
         blog_images = [''/uploads/a.png'', ''/uploads/b.png'', ''/uploads/c.png'']\<rparr>)],
      write_fault = None, write_delay = False\<rparr>"

section \<open>Validation boundaries\<close>

lemmas sample_defs = sample_js_def sample_product_body_def sample_post_def

text \<open>
  Claim C7. Both validators answer 400 for a title shorter than 3 or longer than 100
  characters (so for length 2) and for a description or content shorter than 10 characters
  (so for length 9), and the product validator answers 400 for a price that is the number
  0. A payload whose title has 3 to 100 characters, whose description or content has at
  least 10 and (for a product) whose price is a positive number such as 0.01 passes on to
  the handler.
\<close>

theorem validation_boundaries:
  "(field_length (p_title body) < 3 \<or> 100 < field_length (p_title body)
      \<longrightarrow> rejected (validateProduct lang body :: 'a middleware) 400)
 \<and> (field_length (p_description body) < 10
      \<longrightarrow> rejected (validateProduct lang body :: 'a middleware) 400)
 \<and> (price_number (js_Number lang) (p_price body) = Some 0
      \<longrightarrow> rejected (validateProduct lang body :: 'a middleware) 400)
 \<and> (3 \<le> field_length (p_title body) \<and> field_length (p_title body) \<le> 100
      \<and> 10 \<le> field_length (p_description body) \<and> \<not> price_falsy (p_price body)
      \<and> price_number (js_Number lang) (p_price body) = Some r \<and> 0 < r
      \<longrightarrow> (validateProduct lang body :: 'a middleware) = Next)
 \<and> (field_length (b_title post) < 3 \<or> 100 < field_length (b_title post)
      \<longrightarrow> rejected (validateBlogPost post :: 'b middleware) 400)
 \<and> (field_length (b_content post) < 10
      \<longrightarrow> rejected (validateBlogPost post :: 'b middleware) 400)
 \<and> (3 \<le> field_length (b_title post) \<and> field_length (b_title post) \<le> 100
      \<and> 10 \<le> field_length (b_content post)
      \<longrightarrow> (validateBlogPost post :: 'b middleware) = Next)"
  by (auto simp: validateProduct_def validateBlogPost_def rejected_def reply_def falsy_def
      field_length_def split: option.splits)

theorem validation_boundaries_witness:
  "rejected (validateProduct sample_js
      (sample_product_body ''ab'' ''0123456789'' (PString ''0.01'')) :: unit middleware) 400
 \<and> (validateProduct sample_js
      (sample_product_body ''abc'' ''0123456789'' (PString ''0.01'')) :: unit middleware) = Next
 \<and> rejected (validateProduct sample_js
      (sample_product_body ''abc'' ''012345678'' (PString ''0.01'')) :: unit middleware) 400
 \<and> rejected (validateProduct sample_js
      (sample_product_body ''abc'' ''0123456789'' (PString ''0'')) :: unit middleware) 400
 \<and> (validateProduct sample_js
      (sample_product_body (replicate 100 CHR ''a'') ''0123456789'' (PNumber 0.01)) :: unit middleware) = Next
 \<and> rejected (validateBlogPost (sample_post ''ab'' ''0123456789'') :: unit middleware) 400
 \<and> (validateBlogPost (sample_post ''abc'' ''0123456789'') :: unit middleware) = Next
 \<and> rejected (validateBlogPost (sample_post ''abc'' ''012345678'') :: unit middleware) 400"
proof -
  note ev = sample_defs field_length_def price_number_def price_falsy_def
  note vb = validation_boundaries [where 'a = unit and 'b = unit and lang = sample_js and r = "1/100"]
  have 1: "rejected (validateProduct sample_js
      (sample_product_body ''ab'' ''0123456789'' (PString ''0.01'')) :: unit middleware) 400"
    using vb [of "sample_product_body ''ab'' ''0123456789'' (PString ''0.01'')"
        "sample_post ''ab'' ''0123456789''"]
    by (simp add: ev)
  have 2: "(validateProduct sample_js
      (sample_product_body ''abc'' ''0123456789'' (PString ''0.01'')) :: unit middleware) = Next"
    using vb [of "sample_product_body ''abc'' ''0123456789'' (PString ''0.01'')"
        "sample_post ''ab'' ''0123456789''"]
    by (simp add: ev)
  have 3: "rejected (validateProduct sample_js
      (sample_product_body ''abc'' ''012345678'' (PString ''0.01'')) :: unit middleware) 400"
    using vb [of "sample_product_body ''abc'' ''012345678'' (PString ''0.01'')"
        "sample_post ''ab'' ''0123456789''"]
    by (simp add: ev)
  have 4: "rejected (validateProduct sample_js
      (sample_product_body ''abc'' ''0123456789'' (PString ''0'')) :: unit middleware) 400"
    using vb [of "sample_product_body ''abc'' ''0123456789'' (PString ''0'')"
        "sample_post ''ab'' ''0123456789''"]
    by (simp add: ev)
  have 5: "(validateProduct sample_js
      (sample_product_body (replicate 100 CHR ''a'') ''0123456789'' (PNumber 0.01)) :: unit middleware) = Next"
    using vb [of "sample_product_body (replicate 100 CHR ''a'') ''0123456789'' (PNumber 0.01)"
        "sample_post ''ab'' ''0123456789''"]
    by (simp add: ev)
  have 6: "rejected (validateBlogPost (sample_post ''ab'' ''0123456789'') :: unit middleware) 400"
    using vb [of "sample_product_body ''ab'' ''0123456789'' (PString ''0.01'')"
        "sample_post ''ab'' ''0123456789''"]
    by (simp add: ev)
  have 7: "(validateBlogPost (sample_post ''abc'' ''0123456789'') :: unit middleware) = Next"
    using vb [of "sample_product_body ''ab'' ''0123456789'' (PString ''0.01'')"
        "sample_post ''abc'' ''0123456789''"]
    by (simp add: ev)
  have 8: "rejected (validateBlogPost (sample_post ''abc'' ''012345678'') :: unit middleware) 400"
    using vb [of "sample_product_body ''ab'' ''0123456789'' (PString ''0.01'')"
        "sample_post ''abc'' ''012345678''"]
    by (simp add: ev)
  from 1 2 3 4 5 6 7 8 show ?thesis by blast
qed

section \<open>Paginated listing: properties\<close>

lemma ceil_div_ceiling:
  assumes "0 < l"
  shows "ceil_div n l = Some (nat \<lceil>real n / real l\<rceil>)"
proof -
  define q where "q = (n + l - 1) div l"
  have up: "n \<le> q * l"
  proof -
    have "n + l - 1 < q * l + l"
      unfolding q_def using assms
      by (metis add.commute div_mult_mod_eq mod_less_divisor add_less_cancel_left mult.commute)
    then show ?thesis using assms by simp
  qed
  have lo: "q * l < n + l"
  proof -
    have "q * l \<le> n + l - 1" unfolding q_def by simp
    then show ?thesis using assms by simp
  qed
  have rl: "0 < real l" using assms by simp
  have "real n \<le> real q * real l" using up by (metis of_nat_le_iff of_nat_mult)
  then have a: "real n / real l \<le> real q" using rl by (simp add: pos_divide_le_eq)
  have "real q * real l < real n + real l" using lo by (metis of_nat_less_iff of_nat_mult of_nat_add)
  then have "(real q - 1) * real l < real n" by (simp add: algebra_simps)
  then have b: "real q - 1 < real n / real l" using rl by (simp add: pos_less_divide_eq)
  have "\<lceil>real n / real l\<rceil> = int q"
    by (rule ceiling_unique) (use a b in simp_all)
  then show ?thesis using assms by (simp add: ceil_div_def q_def)
qed

lemma sort_desc_sorted: "sorted (rev (map key (sort_desc key ds)))"
  by (simp add: sort_desc_def rev_map [symmetric])

lemma sort_desc_mset: "mset (sort_desc key ds) = mset ds"
  by (simp add: sort_desc_def)

lemma promise_all_queries:
  "promise_all (find_page query key skip limit) (countDocuments query) w
     = ((skip_limit skip limit (sort_desc key (filter query (map snd (collection w)))),
         length (filter query (map snd (collection w)))), w)"
  "promise_all_reversed (find_page query key skip limit) (countDocuments query) w
     = promise_all (find_page query key skip limit) (countDocuments query) w"
  by (simp_all add: promise_all_def promise_all_reversed_def find_page_def countDocuments_def)

lemma product_list_page:
  assumes "1 \<le> page" and "1 \<le> limit"
  shows "product_list qcategory (Some page) (Some limit) w =
     reply_doc 200
       \<lparr>items = take limit (drop ((page - 1) * limit)
                  (sort_desc createdAt (filter (product_query qcategory) (map snd (collection w))))),
        currentPage = page,
        totalPages = Some (nat \<lceil>real (length (filter (product_query qcategory) (map snd (collection w)))) / real limit\<rceil>),
        totalCount = length (filter (product_query qcategory) (map snd (collection w)))\<rparr>"
proof -
  have "(int page - 1) * int limit = int ((page - 1) * limit)"
    using assms by (simp add: of_nat_diff)
  then show ?thesis
    using assms
    by (simp add: product_list_def Let_def promise_all_queries skip_limit_def ceil_div_ceiling
        del: of_nat_mult)
qed

lemma blog_list_page:
  assumes "1 \<le> page" and "1 \<le> limit"
  shows "blog_list (Some page) (Some limit) w =
     reply_doc 200
       \<lparr>items = take limit (drop ((page - 1) * limit) (sort_desc blog_date (map snd (collection w)))),
        currentPage = page,
        totalPages = Some (nat \<lceil>real (length (collection w)) / real limit\<rceil>),
        totalCount = length (collection w)\<rparr>"
  using assms
  by (simp add: blog_list_def Let_def promise_all_queries skip_limit_def ceil_div_ceiling
      or_default_def)

lemma list_defaults:
  "product_list qcategory None qlimit w = product_list qcategory (Some 1) qlimit w"
  "product_list qcategory qpage None w = product_list qcategory qpage (Some 10) w"
  "blog_list None qlimit b = blog_list (Some 1) qlimit b"
  "blog_list qpage None b = blog_list qpage (Some 10) b"
  "blog_list (Some 0) qlimit b = blog_list (Some 1) qlimit b"
  "blog_list qpage (Some 0) b = blog_list qpage (Some 10) b"
  by (simp_all add: product_list_def blog_list_def or_default_def)

lemma list_of_fifteen:
  assumes "length (collection b) = 15"
  shows "items (listed (blog_list (Some 2) (Some 10) b))
           = drop 10 (sort_desc blog_date (map snd (collection b)))"
    and "length (items (listed (blog_list (Some 2) (Some 10) b))) = 5"
    and "totalPages (listed (blog_list (Some 2) (Some 10) b)) = Some 2"
  using assms
  by (simp_all add: blog_list_def Let_def promise_all_queries skip_limit_def ceil_div_def
      or_default_def listed_def reply_doc_def sort_desc_def)

lemma list_limit_zero:
  assumes "length (collection w) = 15" and "length (collection b) = 15"
  shows "totalPages (listed (product_list None (Some 1) (Some 0) w)) = None"
    and "length (items (listed (product_list None (Some 1) (Some 0) w))) = 15"
    and "totalPages (listed (blog_list (Some 1) (Some 0) b)) = Some 2"
    and "length (items (listed (blog_list (Some 1) (Some 0) b))) = 10"
  using assms
  by (simp_all add: product_list_def blog_list_def Let_def promise_all_queries skip_limit_def
      ceil_div_def or_default_def listed_def reply_doc_def sort_desc_def product_query_def
      falsy_def)

text \<open>
  Claim C6, as amended. For a page of at least 1 and a page size of at least 1, a listing
  answers with the documents that match, most recent first, without the first
  (page - 1) * size of them and cut to the page size, with the number of matching
  documents and with the number of pages, the ceiling of that number over the page size.
  An absent page is page 1 and an absent size is 10, each on its own; the blog listing
  also replaces a page or a size of 0 by these defaults. The sorted list is a permutation of the
  documents in descending order of the recency field. The slice and the count are two
  reads of the collection that change nothing: whichever of them ends first, the same
  pair of results is handed on. With 15 documents, page 2 of size 10 holds the documents
  ranked 11 to 15 and there are 2 pages.
\<close>

theorem paginated_listing:
  assumes "1 \<le> page" and "1 \<le> limit"
  shows "product_list qcategory (Some page) (Some limit) w =
     reply_doc 200
       \<lparr>items = take limit (drop ((page - 1) * limit)
                  (sort_desc createdAt (filter (product_query qcategory) (map snd (collection w))))),
        currentPage = page,
        totalPages = Some (nat \<lceil>real (length (filter (product_query qcategory) (map snd (collection w)))) / real limit\<rceil>),
        totalCount = length (filter (product_query qcategory) (map snd (collection w)))\<rparr>
   \<and> blog_list (Some page) (Some limit) b =
     reply_doc 200
       \<lparr>items = take limit (drop ((page - 1) * limit) (sort_desc blog_date (map snd (collection b)))),
        currentPage = page,
        totalPages = Some (nat \<lceil>real (length (collection b)) / real limit\<rceil>),
        totalCount = length (collection b)\<rparr>
   \<and> product_list qcategory None qlimit w = product_list qcategory (Some 1) qlimit w
   \<and> product_list qcategory qpage None w = product_list qcategory qpage (Some 10) w
   \<and> blog_list None qlimit b = blog_list (Some 1) qlimit b
   \<and> blog_list qpage None b = blog_list qpage (Some 10) b
   \<and> blog_list (Some 0) qlimit b = blog_list (Some 1) qlimit b
   \<and> blog_list qpage (Some 0) b = blog_list qpage (Some 10) b
   \<and> sorted (rev (map createdAt (sort_desc createdAt ps)))
   \<and> mset (sort_desc createdAt ps) = mset ps
   \<and> sorted (rev (map blog_date (sort_desc blog_date bs)))
   \<and> mset (sort_desc blog_date bs) = mset bs
   \<and> promise_all_reversed (find_page (product_query qcategory) createdAt ((page - 1) * limit) limit)
         (countDocuments (product_query qcategory)) w
       = promise_all (find_page (product_query qcategory) createdAt ((page - 1) * limit) limit)
           (countDocuments (product_query qcategory)) w
   \<and> snd (promise_all (find_page (product_query qcategory) createdAt ((page - 1) * limit) limit)
         (countDocuments (product_query qcategory)) w) = w
   \<and> promise_all_reversed (find_page (\<lambda>d. True) blog_date ((page - 1) * limit) limit)
         (countDocuments (\<lambda>d. True)) b
       = promise_all (find_page (\<lambda>d. True) blog_date ((page - 1) * limit) limit)
           (countDocuments (\<lambda>d. True)) b
   \<and> snd (promise_all (find_page (\<lambda>d. True) blog_date ((page - 1) * limit) limit)
         (countDocuments (\<lambda>d. True)) b) = b
   \<and> (length (collection b) = 15 \<longrightarrow>
        items (listed (blog_list (Some 2) (Some 10) b)) = drop 10 (sort_desc blog_date (map snd (collection b)))
      \<and> length (items (listed (blog_list (Some 2) (Some 10) b))) = 5
      \<and> totalPages (listed (blog_list (Some 2) (Some 10) b)) = Some 2)"
proof -
  have inst: "length (collection b) = 15 \<longrightarrow>
        items (listed (blog_list (Some 2) (Some 10) b)) = drop 10 (sort_desc blog_date (map snd (collection b)))
      \<and> length (items (listed (blog_list (Some 2) (Some 10) b))) = 5
      \<and> totalPages (listed (blog_list (Some 2) (Some 10) b)) = Some 2"
    using list_of_fifteen [of b] by blast
  have unchanged: "snd (promise_all (find_page query key skip lim) (countDocuments query) x) = x"
    for query :: "'z \<Rightarrow> bool" and key skip lim and x :: "('z, 'y) world_scheme"
    by (simp add: promise_all_queries)
  show ?thesis
    by (intro conjI product_list_page [OF assms] blog_list_page [OF assms] list_defaults
        sort_desc_sorted sort_desc_mset promise_all_queries(2) unchanged inst)
qed

theorem paginated_listing_witness:
  "(1::nat) \<le> 2 \<and> (1::nat) \<le> 10
   \<and> length (collection (empty_world\<lparr>collection := map sample_blog fifteen\<rparr>)) = 15
   \<and> map blog_date (items (listed (blog_list (Some 2) (Some 10)
        (empty_world\<lparr>collection := map sample_blog fifteen\<rparr>)))) = [5, 4, 3, 2, 1]
   \<and> totalPages (listed (blog_list (Some 2) (Some 10)
        (empty_world\<lparr>collection := map sample_blog fifteen\<rparr>))) = Some 2
   \<and> map createdAt (items (listed (product_list None (Some 2) (Some 10)
        (empty_world\<lparr>collection := map sample_product fifteen\<rparr>)))) = [5, 4, 3, 2, 1]"
  using paginated_listing [where page = 2 and limit = 10 and qcategory = None
      and w = "empty_world\<lparr>collection := map sample_product fifteen\<rparr>"
      and b = "empty_world\<lparr>collection := map sample_blog fifteen\<rparr>"
      and qpage = None and qlimit = None and ps = "[]" and bs = "[]"]
  by (simp add: empty_world_def fifteen_def sample_blog_def sample_product_def sort_desc_def
      listed_def reply_doc_def product_query_def falsy_def)

text \<open>
  Claim C6 as stated fails at a page size of 0, which it does not exclude: over 15
  documents the product listing then answers with all 15 documents and no number of
  pages (\<open>null\<close>), and the blog listing answers with 10 documents and 2 pages as for the
  default size.
\<close>

theorem paginated_listing_counterexample:
  "totalPages (listed (product_list None (Some 1) (Some 0)
       (empty_world\<lparr>collection := map sample_product fifteen\<rparr>))) = None
 \<and> length (items (listed (product_list None (Some 1) (Some 0)
       (empty_world\<lparr>collection := map sample_product fifteen\<rparr>)))) = 15
 \<and> totalPages (listed (blog_list (Some 1) (Some 0)
       (empty_world\<lparr>collection := map sample_blog fifteen\<rparr>))) = Some 2
 \<and> length (items (listed (blog_list (Some 1) (Some 0)
       (empty_world\<lparr>collection := map sample_blog fifteen\<rparr>)))) = 10"
proof -
  have w: "length (collection (empty_world\<lparr>collection := map sample_product fifteen\<rparr>)) = 15"
    by (simp add: fifteen_def)
  have b: "length (collection (empty_world\<lparr>collection := map sample_blog fifteen\<rparr>)) = 15"
    by (simp add: fifteen_def)
  show ?thesis
    by (intro conjI list_limit_zero [OF w b])
qed

section \<open>The enquiry router: properties\<close>

lemma send_step_status: "e_status (snd (send_step env body)) \<noteq> 400"
  by (simp add: send_step_def Let_def split: sum.splits)

lemma send_step_outbox:
  "\<not> falsy (EMAIL_USER env) \<Longrightarrow> \<not> falsy (EMAIL_PASSWORD env)
   \<Longrightarrow> outbox (fst (send_step env body)) = outbox env @ [mailOptions env body]"
  by (simp add: send_step_def Let_def split: sum.splits)

text \<open>
  Claim C10. The required-field check of the enquiry endpoint runs only for the form
  types \<open>contact\<close> and \<open>enquiry\<close>. For any other form type, and for none, the request is
  never answered with 400, whatever fields are missing: the handler goes on to its
  sending step (the check of the mail configuration, then the call of the mail relay),
  and with the mail account configured the message is handed to the relay. For
  \<open>contact\<close> and \<open>enquiry\<close> a missing field is answered with 400 and nothing is sent.
\<close>

theorem enquiry_validation_by_form_type:
  "(e_formType body \<noteq> Some ''contact'' \<and> e_formType body \<noteq> Some ''enquiry'' \<longrightarrow>
      enquiry_post env body = send_step env body
    \<and> e_status (snd (enquiry_post env body)) \<noteq> 400
    \<and> (\<not> falsy (EMAIL_USER env) \<and> \<not> falsy (EMAIL_PASSWORD env) \<longrightarrow>
         outbox (fst (enquiry_post env body)) = outbox env @ [mailOptions env body]))
 \<and> ((e_formType body = Some ''contact'' \<or> e_formType body = Some ''enquiry'') \<and> missing_fields body \<longrightarrow>
      e_status (snd (enquiry_post env body)) = 400 \<and> fst (enquiry_post env body) = env)"
  using send_step_status [of env body] send_step_outbox [of env body]
  by (auto simp: enquiry_post_def)

theorem enquiry_validation_by_form_type_witness:
  "e_status (snd (enquiry_post sample_mailer (blank_enquiry (Some ''newsletter'')))) = 200
 \<and> outbox (fst (enquiry_post sample_mailer (blank_enquiry (Some ''newsletter''))))
      = [mailOptions sample_mailer (blank_enquiry (Some ''newsletter''))]
 \<and> e_status (snd (enquiry_post sample_mailer (blank_enquiry None))) = 200
 \<and> outbox (fst (enquiry_post sample_mailer (blank_enquiry None)))
      = [mailOptions sample_mailer (blank_enquiry None)]
 \<and> html (mailOptions sample_mailer (blank_enquiry None))
      = [''undefined'', ''undefined'', ''undefined'', ''Not provided'', ''undefined'']
 \<and> e_status (snd (enquiry_post sample_mailer (blank_enquiry (Some ''contact'')))) = 400
 \<and> outbox (fst (enquiry_post sample_mailer (blank_enquiry (Some ''enquiry'')))) = []"
proof -
  note ev = sample_mailer_def blank_enquiry_def falsy_def missing_fields_def
  have conf: "\<not> falsy (EMAIL_USER sample_mailer)" "\<not> falsy (EMAIL_PASSWORD sample_mailer)"
    by (simp_all add: ev)
  have other: "e_formType (blank_enquiry (Some ''newsletter'')) \<noteq> Some ''contact''"
    "e_formType (blank_enquiry (Some ''newsletter'')) \<noteq> Some ''enquiry''"
    "e_formType (blank_enquiry None) \<noteq> Some ''contact''"
    "e_formType (blank_enquiry None) \<noteq> Some ''enquiry''"
    by (simp_all add: ev)
  have miss: "e_formType (blank_enquiry (Some ''contact'')) = Some ''contact''"
    "e_formType (blank_enquiry (Some ''enquiry'')) = Some ''enquiry''"
    "missing_fields (blank_enquiry t)" for t
    by (simp_all add: ev)
  note thm1 = enquiry_validation_by_form_type [of "blank_enquiry (Some ''newsletter'')" sample_mailer]
  note thm2 = enquiry_validation_by_form_type [of "blank_enquiry None" sample_mailer]
  have e1: "enquiry_post sample_mailer (blank_enquiry (Some ''newsletter''))
             = send_step sample_mailer (blank_enquiry (Some ''newsletter''))"
    using thm1 other by blast
  have o1: "outbox (fst (enquiry_post sample_mailer (blank_enquiry (Some ''newsletter''))))
             = outbox sample_mailer @ [mailOptions sample_mailer (blank_enquiry (Some ''newsletter''))]"
    using thm1 conf other by blast
  have e2: "enquiry_post sample_mailer (blank_enquiry None) = send_step sample_mailer (blank_enquiry None)"
    using thm2 other by blast
  have o2: "outbox (fst (enquiry_post sample_mailer (blank_enquiry None)))
             = outbox sample_mailer @ [mailOptions sample_mailer (blank_enquiry None)]"
    using thm2 conf other by blast
  have 3: "e_status (snd (enquiry_post sample_mailer (blank_enquiry (Some ''contact'')))) = 400"
    using enquiry_validation_by_form_type [of "blank_enquiry (Some ''contact'')" sample_mailer]
      miss by blast
  have 4: "fst (enquiry_post sample_mailer (blank_enquiry (Some ''enquiry''))) = sample_mailer"
    using enquiry_validation_by_form_type [of "blank_enquiry (Some ''enquiry'')" sample_mailer]
      miss by blast
  have 5: "e_status (snd (send_step sample_mailer (blank_enquiry t))) = 200" for t
    by (simp add: send_step_def Let_def ev)
  have 6: "html (mailOptions sample_mailer (blank_enquiry None))
      = [''undefined'', ''undefined'', ''undefined'', ''Not provided'', ''undefined'']"
    by (simp add: mailOptions_def interpolate_def ev)
  have 7: "outbox sample_mailer = []"
    by (simp add: sample_mailer_def)
  have s1: "e_status (snd (enquiry_post sample_mailer (blank_enquiry (Some ''newsletter'')))) = 200"
    by (simp only: e1 5)
  have s2: "e_status (snd (enquiry_post sample_mailer (blank_enquiry None))) = 200"
    by (simp only: e2 5)
  show ?thesis
    by (simp only: s1 s2 o1 o2 3 4 6 7 append_Nil simp_thms)
qed

section \<open>Remote variant: explicit deletions\<close>

lemma find_public_id:
  "find (\<lambda>img. public_id img = i) orig = Some found \<Longrightarrow> public_id found = i"
  by (induction orig) (auto split: if_splits)

lemma find_public_id_None:
  "(find (\<lambda>img. public_id img = i) orig = None) = (i \<notin> public_id ` set orig)"
  by (induction orig) auto

lemma delete_marked_frame:
  "destroy_fault (snd (delete_marked orig ids (imgs, w))) = destroy_fault w
 \<and> upload_result (snd (delete_marked orig ids (imgs, w))) = upload_result w
 \<and> collection (snd (delete_marked orig ids (imgs, w))) = collection w
 \<and> write_fault (snd (delete_marked orig ids (imgs, w))) = write_fault w
 \<and> disk (snd (delete_marked orig ids (imgs, w))) = disk w"
  by (induction ids arbitrary: imgs w)
     (auto simp: destroy_def console_error_def split: option.splits sum.splits if_splits)

lemma delete_marked_images:
  "fst (delete_marked orig ids (imgs, w))
     = filter (\<lambda>img. public_id img \<notin> destroyed orig ids w) imgs"
proof (induction ids arbitrary: imgs w)
  case Nil
  show ?case by (simp add: destroyed_def)
next
  case (Cons i ids)
  show ?case
  proof (cases "find (\<lambda>img. public_id img = i) orig")
    case None
    then have "i \<notin> public_id ` set orig" by (simp add: find_public_id_None)
    then have "destroyed orig (i # ids) w = destroyed orig ids w"
      by (auto simp: destroyed_def)
    with None Cons show ?thesis by simp
  next
    case (Some found)
    then have pid: "public_id found = i" by (rule find_public_id)
    from Some have mem: "i \<in> public_id ` set orig"
      using find_public_id_None [of i orig] by auto
    show ?thesis
    proof (cases "i \<in> destroy_fault w")
      case True
      then have "destroyed orig (i # ids) w = destroyed orig ids w"
        by (auto simp: destroyed_def)
      moreover have "destroyed orig ids (console_error ''Error deleting image'' w) = destroyed orig ids w"
        by (simp add: destroyed_def console_error_def)
      ultimately show ?thesis using Some pid True Cons by (simp add: destroy_def)
    next
      case False
      then have d: "destroyed orig (i # ids) w = insert i (destroyed orig ids w)"
        using mem by (auto simp: destroyed_def)
      have "destroyed orig ids (w\<lparr>assets := assets w - {i}\<rparr>) = destroyed orig ids w"
        by (simp add: destroyed_def)
      then show ?thesis using Some pid False Cons d by (auto simp: destroy_def intro: filter_cong)
    qed
  qed
qed

lemma delete_marked_assets:
  "assets (snd (delete_marked orig ids (imgs, w))) = assets w - destroyed orig ids w"
proof (induction ids arbitrary: imgs w)
  case Nil
  show ?case by (simp add: destroyed_def)
next
  case (Cons i ids)
  show ?case
  proof (cases "find (\<lambda>img. public_id img = i) orig")
    case None
    then have "i \<notin> public_id ` set orig" by (simp add: find_public_id_None)
    then have "destroyed orig (i # ids) w = destroyed orig ids w"
      by (auto simp: destroyed_def)
    with None Cons show ?thesis by simp
  next
    case (Some found)
    then have pid: "public_id found = i" by (rule find_public_id)
    from Some have mem: "i \<in> public_id ` set orig"
      using find_public_id_None [of i orig] by auto
    show ?thesis
    proof (cases "i \<in> destroy_fault w")
      case True
      then have "destroyed orig (i # ids) w = destroyed orig ids w"
        by (auto simp: destroyed_def)
      moreover have "destroyed orig ids (console_error ''Error deleting image'' w) = destroyed orig ids w"
        by (simp add: destroyed_def console_error_def)
      ultimately show ?thesis using Some pid True Cons by (simp add: destroy_def console_error_def)
    next
      case False
      then have d: "destroyed orig (i # ids) w = insert i (destroyed orig ids w)"
        using mem by (auto simp: destroyed_def)
      have "destroyed orig ids (w\<lparr>assets := assets w - {i}\<rparr>) = destroyed orig ids w"
        by (simp add: destroyed_def)
      then show ?thesis using Some pid False Cons d by (auto simp: destroy_def)
    qed
  qed
qed

lemma delete_marked_console:
  "console (snd (delete_marked orig ids (imgs, w)))
     = console w @ replicate (length (filter (\<lambda>i. i \<in> public_id ` set orig \<and> i \<in> destroy_fault w) ids))
                     ''Error deleting image''"
proof (induction ids arbitrary: imgs w)
  case Nil
  show ?case by simp
next
  case (Cons i ids)
  show ?case
  proof (cases "find (\<lambda>img. public_id img = i) orig")
    case None
    then have "i \<notin> public_id ` set orig" by (simp add: find_public_id_None)
    with None Cons show ?thesis by simp
  next
    case (Some found)
    then have pid: "public_id found = i" by (rule find_public_id)
    from Some have mem: "i \<in> public_id ` set orig"
      using find_public_id_None [of i orig] by auto
    show ?thesis
      using Some pid mem Cons
      by (cases "i \<in> destroy_fault w")
         (simp_all add: destroy_def console_error_def)
  qed
qed

lemma upload_all_ok:
  "map (\<lambda>f. upload_result w (path f)) files = map Some news
   \<Longrightarrow> upload_all files w = (Some news, w\<lparr>assets := assets w \<union> public_id ` set news\<rparr>)"
proof (induction files arbitrary: news w)
  case Nil
  then show ?case by simp
next
  case (Cons f files)
  then obtain n ns where news: "news = n # ns" by (cases news) auto
  with Cons.prems have h: "upload_result w (path f) = Some n"
    and t: "map (\<lambda>f. upload_result w (path f)) files = map Some ns" by auto
  have "upload_all files (w\<lparr>assets := assets w \<union> {public_id n}\<rparr>)
      = (Some ns, w\<lparr>assets := assets w \<union> {public_id n}\<rparr>\<lparr>assets := assets (w\<lparr>assets := assets w \<union> {public_id n}\<rparr>) \<union> public_id ` set ns\<rparr>)"
    by (rule Cons.IH) (use t in simp)
  then show ?case using h news by (simp add: Un_assoc)
qed

lemma map_of_put_doc: "map_of (put_doc i d c) i = Some d"
proof -
  have a: "map_of (map (\<lambda>(j, e). if j = i then (j, d) else (j, e)) c) i = Some d"
    if "i \<in> fst ` set c"
    using that by (induction c) auto
  have b: "map_of (c @ [(i, d)]) i = Some d" if "i \<notin> fst ` set c"
    using that by (induction c) auto
  show ?thesis using a b by (simp add: put_doc_def)
qed

text \<open>
  Claim C9. An update of the remote variant that carries a list of identifiers marked for
  removal, finds its document, and whose uploads, field parsing and save go through,
  answers 200 whatever \<open>destroy\<close> calls fail. An image leaves the document's image list
  exactly when its identifier is marked, belongs to the document and its \<open>destroy\<close> call
  succeeded; an image whose call failed stays, and each failed call writes one line to
  the console. The saved image list is that filtered list followed by the new uploads.
\<close>

theorem remote_update_deletions:
  assumes found: "findById w i = Inr (Some product)"
    and marked: "p_deletedImages body = Many ids"
    and uploads: "map (\<lambda>f. upload_result w (path f)) files = map Some newImages"
    and lists: "json_list lang (p_features body) \<noteq> None"
      "json_list lang (p_specifications body) \<noteq> None" "json_list lang (p_tags body) \<noteq> None"
    and valid: "text_of (p_title body) \<noteq> []" "parse_price lang (p_price body) \<noteq> None"
      "\<not> falsy (p_category body)" "text_of (p_description body) \<noteq> []"
    and db: "write_fault w = None"
  shows "status (snd (cloud_update_handler lang now i files body w)) = 200
   \<and> map images (sent (snd (cloud_update_handler lang now i files body w)))
       = [filter (\<lambda>img. public_id img \<notin> destroyed (images product) ids w) (images product) @ newImages]
   \<and> map_of (collection (fst (cloud_update_handler lang now i files body w))) i
       = payload (snd (cloud_update_handler lang now i files body w))
   \<and> assets (fst (cloud_update_handler lang now i files body w))
       = assets w - destroyed (images product) ids w \<union> public_id ` set newImages
   \<and> console (fst (cloud_update_handler lang now i files body w))
       = console w @ replicate
           (length (filter (\<lambda>j. j \<in> public_id ` set (images product) \<and> j \<in> destroy_fault w) ids))
           ''Error deleting image''
   \<and> destroyed (images product) ids w
       = {j \<in> set ids. j \<in> public_id ` set (images product) \<and> j \<notin> destroy_fault w}"
proof -
  define orig where "orig = images product"
  define dm where "dm = delete_marked orig ids (orig, w)"
  define w1 where "w1 = snd dm"
  have dm: "delete_marked orig ids (orig, w) = (fst dm, w1)"
    by (simp add: dm_def w1_def)
  have fr: "upload_result w1 = upload_result w" "write_fault w1 = write_fault w"
    "collection w1 = collection w"
    using delete_marked_frame [of orig ids orig w] by (simp_all add: w1_def dm_def)
  have up: "upload_all files w1 = (Some newImages, w1\<lparr>assets := assets w1 \<union> public_id ` set newImages\<rparr>)"
    by (rule upload_all_ok) (simp add: fr uploads)
  obtain fs ss ts where js: "json_list lang (p_features body) = Some fs"
    "json_list lang (p_specifications body) = Some ss" "json_list lang (p_tags body) = Some ts"
    using lists by auto
  have im: "fst dm = filter (\<lambda>img. public_id img \<notin> destroyed orig ids w) orig"
    using delete_marked_images [of orig ids orig w] by (simp add: dm_def)
  have as: "assets w1 = assets w - destroyed orig ids w"
    using delete_marked_assets [of orig ids orig w] by (simp add: dm_def w1_def)
  have co: "console w1 = console w @ replicate
           (length (filter (\<lambda>j. j \<in> public_id ` set orig \<and> j \<in> destroy_fault w) ids))
           ''Error deleting image''"
    using delete_marked_console [of orig ids orig w] by (simp add: dm_def w1_def)
  define product' where "product' = product\<lparr>title := text_of (p_title body),
      tagline := p_tagline body, price := parse_price lang (p_price body),
      category := p_category body, description := text_of (p_description body),
      features := fs, specifications := ss, tags := ts,
      images := fst dm @ newImages, updatedAt := now\<rparr>"
  define w2 where "w2 = w1\<lparr>assets := assets w1 \<union> public_id ` set newImages\<rparr>"
  have ok: "save product_schema i product' w2 = Inr (w2\<lparr>collection := put_doc i product' (collection w)\<rparr>)"
    using valid db by (simp add: save_def product_schema_def product'_def w2_def fr)
  have res: "cloud_update_handler lang now i files body w
      = (w2\<lparr>collection := put_doc i product' (collection w)\<rparr>,
         \<lparr>status = 200, message = Text ''Product updated successfully'', payload = Some product'\<rparr>)"
    using found marked
    by (simp add: cloud_update_handler_def orig_def [symmetric] dm up js Let_def
        product'_def [symmetric] w2_def [symmetric] ok)
  have d: "destroyed orig ids w = {j \<in> set ids. j \<in> public_id ` set orig \<and> j \<notin> destroy_fault w}"
    by (simp add: destroyed_def)
  have i1: "images product' = filter (\<lambda>img. public_id img \<notin> destroyed orig ids w) orig @ newImages"
    by (simp add: product'_def im)
  have a1: "assets w2 = assets w - destroyed orig ids w \<union> public_id ` set newImages"
    by (simp add: w2_def as)
  have c1: "console w2 = console w @ replicate
           (length (filter (\<lambda>j. j \<in> public_id ` set orig \<and> j \<in> destroy_fault w) ids))
           ''Error deleting image''"
    by (simp add: w2_def co)
  show ?thesis
    unfolding res orig_def [symmetric]
    using i1 a1 c1 d by (simp add: map_of_put_doc sent_def)
qed

theorem remote_update_deletions_witness:
  "status (snd (cloud_update_handler sample_js 2 sample_id [sample_upload]
      (sample_cloud_body (Many [''a'', ''b'', ''zzz''])) sample_cloud)) = 200
 \<and> map (map public_id \<circ> images) (sent (snd (cloud_update_handler sample_js 2
      sample_id [sample_upload] (sample_cloud_body (Many [''a'', ''b'', ''zzz''])) sample_cloud)))
      = [[''b'', ''c'', ''d'']]
 \<and> assets (fst (cloud_update_handler sample_js 2 sample_id [sample_upload]
      (sample_cloud_body (Many [''a'', ''b'', ''zzz''])) sample_cloud)) = {''b'', ''c'', ''d''}
 \<and> console (fst (cloud_update_handler sample_js 2 sample_id [sample_upload]
      (sample_cloud_body (Many [''a'', ''b'', ''zzz''])) sample_cloud)) = [''Error deleting image'']"
proof -
  let ?body = "sample_cloud_body (Many [''a'', ''b'', ''zzz''])"
  let ?r = "cloud_update_handler sample_js 2 sample_id [sample_upload] ?body sample_cloud"
  have found: "findById sample_cloud sample_id = Inr (Some sample_cloud_product)"
    by (simp add: findById_def isValid_def sample_id_def hex_digit_def sample_cloud_def)
  have marked: "p_deletedImages ?body = Many [''a'', ''b'', ''zzz'']"
    by (simp add: sample_cloud_body_def)
  have uploads: "map (\<lambda>f. upload_result sample_cloud (path f)) [sample_upload] = map Some [sample_image ''d'']"
    by (simp add: sample_cloud_def sample_upload_def)
  have lists: "json_list sample_js (p_features ?body) \<noteq> None"
    "json_list sample_js (p_specifications ?body) \<noteq> None" "json_list sample_js (p_tags ?body) \<noteq> None"
    by (simp_all add: json_list_def falsy_def sample_cloud_body_def)
  have valid: "text_of (p_title ?body) \<noteq> []" "parse_price sample_js (p_price ?body) \<noteq> None"
    "\<not> falsy (p_category ?body)" "text_of (p_description ?body) \<noteq> []"
    by (simp_all add: sample_cloud_body_def text_of_def parse_price_def sample_js_def falsy_def)
  have db: "write_fault sample_cloud = None"
    by (simp add: sample_cloud_def)
  note t = remote_update_deletions [OF found marked uploads lists valid db, of 2]
  note t1 = t [THEN conjunct1]
  note t2 = t [THEN conjunct2, THEN conjunct1]
  note t4 = t [THEN conjunct2, THEN conjunct2, THEN conjunct2, THEN conjunct1]
  note t5 = t [THEN conjunct2, THEN conjunct2, THEN conjunct2, THEN conjunct2, THEN conjunct1]
  note t6 = t [THEN conjunct2, THEN conjunct2, THEN conjunct2, THEN conjunct2, THEN conjunct2]
  have ims: "images sample_cloud_product = [sample_image ''a'', sample_image ''b'', sample_image ''c'']"
    by (simp add: sample_cloud_product_def)
  have env: "destroy_fault sample_cloud = {''b''}" "assets sample_cloud = {''a'', ''b'', ''c''}"
    "console sample_cloud = []"
    by (simp_all add: sample_cloud_def)
  have d: "destroyed (images sample_cloud_product) [''a'', ''b'', ''zzz''] sample_cloud = {''a''}"
    unfolding t6 by (auto simp: ims sample_image_def env)
  have 1: "status (snd ?r) = 200" by (rule t1)
  have "map images (sent (snd ?r))
      = [[sample_image ''b'', sample_image ''c'', sample_image ''d'']]"
    unfolding t2 d by (simp add: ims sample_image_def)
  then have 2: "map (map public_id \<circ> images) (sent (snd ?r)) = [[''b'', ''c'', ''d'']]"
    by (cases "sent (snd ?r)") (simp_all add: sample_image_def)
  have 3: "assets (fst ?r) = {''b'', ''c'', ''d''}"
    unfolding t4 d by (auto simp: env sample_image_def)
  have 4: "console (fst ?r) = [''Error deleting image'']"
    unfolding t5 by (simp add: ims env sample_image_def)
  from 1 2 3 4 show ?thesis by blast
qed

section \<open>Files on disk: what the unlinking passes leave\<close>

lemma unlink_uploaded_frame:
  "locked (unlink_uploaded fs w) = locked w
 \<and> collection (unlink_uploaded fs w) = collection w
 \<and> write_fault (unlink_uploaded fs w) = write_fault w"
  by (induction fs arbitrary: w) (simp_all add: unlink_def console_error_def Let_def)

lemma unlink_uploaded_disk:
  "disk (unlink_uploaded fs w)
     = disk w - ((\<lambda>f. path_join product_uploads (filename f)) ` set fs - locked w)"
proof (induction fs arbitrary: w)
  case Nil
  show ?case by simp
next
  case (Cons f fs)
  show ?case
    by (auto simp: unlink_def console_error_def Let_def Cons)
qed

text \<open>
  One line is logged for every unlink that fails: the passes over a file that is locked
  or already gone.
\<close>

lemma unlink_uploaded_console:
  "\<exists>k. console (unlink_uploaded fs w) = console w @ replicate k ''Error deleting file:''
     \<and> k + card (((\<lambda>f. path_join product_uploads (filename f)) ` set fs \<inter> disk w) - locked w)
         = length fs"
proof (induction fs arbitrary: w)
  case Nil
  show ?case by simp
next
  case (Cons f fs)
  let ?P = "\<lambda>f. path_join product_uploads (filename f)"
  let ?L = "''Error deleting file:''"
  show ?case
  proof (cases "?P f \<in> disk w \<and> ?P f \<notin> locked w")
    case False
    let ?w = "console_error ?L w"
    from Cons [of ?w] obtain k where
      k: "console (unlink_uploaded fs ?w) = console ?w @ replicate k ?L"
        "k + card ((?P ` set fs \<inter> disk ?w) - locked ?w) = length fs"
      by blast
    have step: "unlink_uploaded (f # fs) w = unlink_uploaded fs ?w"
      using False by (auto simp: unlink_def Let_def)
    have sets: "(?P ` set (f # fs) \<inter> disk w) - locked w = (?P ` set fs \<inter> disk w) - locked w"
      using False by auto
    have "console (unlink_uploaded (f # fs) w) = console w @ replicate (Suc k) ?L"
      unfolding step k(1) by (simp add: console_error_def)
    moreover have "Suc k + card ((?P ` set (f # fs) \<inter> disk w) - locked w) = length (f # fs)"
      unfolding sets using k(2) by (simp add: console_error_def)
    ultimately show ?thesis by blast
  next
    case True
    let ?w = "w\<lparr>disk := disk w - {?P f}\<rparr>"
    from Cons [of ?w] obtain k where
      k: "console (unlink_uploaded fs ?w) = console ?w @ replicate k ?L"
        "k + card ((?P ` set fs \<inter> disk ?w) - locked ?w) = length fs"
      by blast
    have step: "unlink_uploaded (f # fs) w = unlink_uploaded fs ?w"
      using True by (simp add: unlink_def Let_def)
    have sets: "(?P ` set (f # fs) \<inter> disk w) - locked w
        = insert (?P f) ((?P ` set fs \<inter> disk ?w) - locked ?w)"
      using True by auto
    have fin: "finite ((?P ` set fs \<inter> disk ?w) - locked ?w)"
      by simp
    have fresh: "?P f \<notin> (?P ` set fs \<inter> disk ?w) - locked ?w"
      by simp
    have "console (unlink_uploaded (f # fs) w) = console w @ replicate k ?L"
      unfolding step k(1) by simp
    moreover have "k + card ((?P ` set (f # fs) \<inter> disk w) - locked w) = length (f # fs)"
      unfolding sets card_insert_disjoint [OF fin fresh] using k(2) by simp
    ultimately show ?thesis by blast
  qed
qed

lemma cleanup_each_frame:
  "locked (cleanup_each imgs w) = locked w
 \<and> collection (cleanup_each imgs w) = collection w
 \<and> write_fault (cleanup_each imgs w) = write_fault w"
  by (induction imgs arbitrary: w) (simp_all add: unlink_def existsSync_def console_error_def Let_def)

lemma cleanup_each_disk:
  "disk (cleanup_each imgs w) = disk w - (path_join public_dir ` set imgs - locked w)"
proof (induction imgs arbitrary: w)
  case Nil
  show ?case by simp
next
  case (Cons img imgs)
  show ?case
    by (auto simp: unlink_def existsSync_def console_error_def Let_def Cons)
qed

lemma delete_images_frame:
  "locked (delete_images imgs w) = locked w
 \<and> collection (delete_images imgs w) = collection w
 \<and> write_fault (delete_images imgs w) = write_fault w"
  by (induction imgs arbitrary: w) (simp_all add: unlink_def existsSync_def console_error_def Let_def)

lemma delete_images_disk:
  "disk (delete_images imgs w) = disk w - (path_join public_dir ` set imgs - locked w)"
proof (induction imgs arbitrary: w)
  case Nil
  show ?case by simp
next
  case (Cons img imgs)
  show ?case
    by (auto simp: unlink_def existsSync_def console_error_def Let_def Cons)
qed

lemma write_files_simps:
  "disk (write_files dest fs w) = disk w \<union> (\<lambda>f. path_join dest (filename f)) ` set fs"
  "locked (write_files dest fs w) = locked w"
  "collection (write_files dest fs w) = collection w"
  "write_fault (write_files dest fs w) = write_fault w"
  "write_delay (write_files dest fs w) = write_delay w"
  "console (write_files dest fs w) = console w"
  by (simp_all add: write_files_def)


section \<open>The upload middleware\<close>

lemma receive_stored:
  "receive fileFilter n files = Inr stored \<Longrightarrow>
     stored = files
     \<and> list_all (\<lambda>f. fieldname f = ''images'' \<and> fileFilter f = None
           \<and> file_size f \<le> fileSize_limit) files
     \<and> (files \<noteq> [] \<longrightarrow> n + length files \<le> maxCount)"
proof (induction files arbitrary: n stored)
  case Nil
  then show ?case by simp
next
  case (Cons f files)
  from Cons.prems obtain rest where
    ok: "\<not> maxCount \<le> n" "fieldname f = ''images''" "fileFilter f = None"
      "\<not> fileSize_limit < file_size f"
    and rest: "receive fileFilter (Suc n) files = Inr rest" and st: "stored = f # rest"
    by (auto split: if_splits sum.splits option.splits)
  from Cons.IH [OF rest] ok st show ?case
    by (cases files) auto
qed

lemma receive_taken:
  "n + length files \<le> maxCount
   \<Longrightarrow> list_all (\<lambda>f. fieldname f = ''images'' \<and> fileFilter f = None
         \<and> file_size f \<le> fileSize_limit) files
   \<Longrightarrow> receive fileFilter n files = Inr files"
  by (induction files arbitrary: n) (auto simp: maxCount_def)

lemma receive_written:
  "receive fileFilter n files = Inl (err, written) \<Longrightarrow>
     set written \<subseteq> set files \<and> fst err \<in> {''MulterError'', ''Error''}"
proof (induction files arbitrary: n written)
  case Nil
  then show ?case by simp
next
  case (Cons f files)
  show ?case
  proof (cases "receive fileFilter (Suc n) files")
    case (Inl rest)
    obtain e r where rest: "rest = (e, r)"
      by (cases rest)
    from Cons.prems Inl rest consider "written = []" "fst err \<in> {''MulterError'', ''Error''}"
      | "written = [f]" "fst err \<in> {''MulterError'', ''Error''}"
      | "written = f # r" "err = e"
      by (auto split: if_splits option.splits)
    then show ?thesis
    proof cases
      case 3
      with Cons.IH [of "Suc n" r] Inl rest show ?thesis
        by auto
    qed auto
  next
    case (Inr rest)
    with Cons.prems show ?thesis
      by (auto split: if_splits option.splits)
  qed
qed

lemma upload_array_taken:
  "taken fileFilter files \<Longrightarrow> upload_array fileFilter dest files w = Inr (write_files dest files w)"
  by (simp add: taken_def upload_array_def receive_taken)

lemma upload_array_refused:
  assumes "\<not> taken fileFilter files"
  shows "\<exists>err written. set written \<subseteq> set files \<and> fst err \<in> {''MulterError'', ''Error''}
     \<and> upload_array fileFilter dest files w = Inl (err, remove_written dest written w)"
proof (cases "receive fileFilter 0 files")
  case (Inl refusal)
  obtain err written where r: "refusal = (err, written)"
    by (cases refusal)
  from receive_written [OF Inl [unfolded r]]
  have "set written \<subseteq> set files \<and> fst err \<in> {''MulterError'', ''Error''}
     \<and> upload_array fileFilter dest files w = Inl (err, remove_written dest written w)"
    by (simp add: upload_array_def Inl r)
  then show ?thesis
    by blast
next
  case (Inr stored)
  from receive_stored [OF Inr] assms show ?thesis
    by (cases files) (auto simp: taken_def)
qed

lemma remove_written_simps:
  "collection (remove_written dest fs w) = collection w"
  "console (remove_written dest fs w) = console w"
  "disk (remove_written dest fs w) \<subseteq> disk w \<union> locked w"
  by (auto simp: remove_written_def)

lemma error_handler_upload:
  "fst err \<in> {''MulterError'', ''Error''}
   \<Longrightarrow> error_handler err w = (console_error ''Error details:'' w, reply 500 ''Something went wrong!'')"
  by (auto simp: error_handler_def Let_def)

lemma refused_by_upload:
  assumes "\<not> taken fileFilter files"
  shows "refused_by (case upload_array fileFilter dest files w of
      Inl (error, w') \<Rightarrow> error_handler error w' | Inr w1 \<Rightarrow> continue w1) w"
proof -
  from upload_array_refused [OF assms, of dest w] obtain err written where
    e: "fst err \<in> {''MulterError'', ''Error''}"
    and u: "upload_array fileFilter dest files w = Inl (err, remove_written dest written w)"
    by blast
  show ?thesis
    using remove_written_simps(3) [of dest written w]
    by (simp add: u error_handler_upload [OF e] refused_by_def console_error_def
        remove_written_simps(1,2))
qed

text \<open>
  A route whose files are taken continues as the route from that point.
\<close>

lemma route_taken:
  "taken no_fileFilter files \<Longrightarrow> blog_post_route now oid files post b = blog_post now oid files post b"
  "taken no_fileFilter files \<Longrightarrow> blog_put_route i files post b = blog_put i files post b"
  "taken product_fileFilter files
     \<Longrightarrow> product_post_route lang now oid files body w = product_post lang now oid files body w"
  "taken product_fileFilter files
     \<Longrightarrow> product_put_route lang now i files body w = product_put lang now i files body w"
  by (simp_all add: blog_post_route_def blog_put_route_def product_post_route_def
      product_put_route_def blog_post_def blog_put_def product_post_def product_put_def
      upload_array_taken Let_def)

lemma route_refused:
  "\<not> taken no_fileFilter files \<Longrightarrow> refused_by (blog_post_route now oid files post b) b"
  "\<not> taken no_fileFilter files \<Longrightarrow> refused_by (blog_put_route i files post b) b"
  "\<not> taken product_fileFilter files
     \<Longrightarrow> refused_by (product_post_route lang now oid files body w) w"
  "\<not> taken product_fileFilter files
     \<Longrightarrow> refused_by (product_put_route lang now i files body w) w"
  unfolding blog_post_route_def blog_put_route_def product_post_route_def product_put_route_def
  by (rule refused_by_upload, assumption)+

section \<open>Compensation of a failed create\<close>

lemma validated_fields:
  assumes "validateProduct lang body = (Next :: 'a middleware)"
  shows "text_of (p_title body) \<noteq> []" and "text_of (p_description body) \<noteq> []"
  using assms
  by (auto simp: validateProduct_def falsy_def text_of_def split: if_splits option.splits)

lemma created_product_schema:
  assumes "validateProduct lang body = (Next :: 'a middleware)"
  shows "product_schema (created_product lang now files body)
      = (parse_price lang (p_price body) \<noteq> None \<and> \<not> falsy (p_category body))"
  using validated_fields [OF assms] by (simp add: product_schema_def created_product_def)

text \<open>
  The world and the status after a create whose save fails: the schema rejects the
  document, the database rejects the write, or the write is too slow. Only a slow write
  that the database accepts in the end leaves a document.
\<close>

lemma product_post_failed:
  assumes "validateProduct lang body = (Next :: string product middleware)"
    and "parse_price lang (p_price body) = None \<or> falsy (p_category body)
         \<or> write_delay w \<or> write_fault w \<noteq> None"
  shows "fst (product_post lang now oid files body w)
      = console_error ''Product creation error:''
          (unlink_uploaded files
            (if parse_price lang (p_price body) \<noteq> None \<and> \<not> falsy (p_category body)
                \<and> write_delay w \<and> write_fault w = None
             then (write_files product_uploads files w)
                    \<lparr>collection := put_doc oid (created_product lang now files body) (collection w)\<rparr>
             else write_files product_uploads files w))"
    and "status (snd (product_post lang now oid files body w))
      = (if parse_price lang (p_price body) \<noteq> None \<and> \<not> falsy (p_category body)
            \<and> (write_delay w \<or> write_fault w = Some ''Database operation timed out'')
         then 504 else 500)"
proof -
  define w1 where "w1 = write_files product_uploads files w"
  define product where "product = created_product lang now files body"
  note schema = created_product_schema [OF assms(1), of now files, folded product_def]
  have w1: "write_fault w1 = write_fault w" "write_delay w1 = write_delay w"
    "collection w1 = collection w"
    by (simp_all add: w1_def write_files_simps)
  have post: "product_post lang now oid files body w
      = (case racing_save product_schema oid product w1 of
           Inr w' \<Rightarrow> (w', reply_doc 201 product)
         | Inl (error, w0) \<Rightarrow>
             (console_error ''Product creation error:'' (unlink_uploaded files w0),
              \<lparr>status = (if error_message error = Text ''Database operation timed out''
                          then 504 else 500),
               message = message_or error ''Failed to create product'',
               payload = None\<rparr>))"
    using assms(1)
    by (simp add: product_post_def product_create_handler_def Let_def w1_def product_def
        created_product_def split: sum.splits prod.splits)
  show "fst (product_post lang now oid files body w)
      = console_error ''Product creation error:''
          (unlink_uploaded files
            (if parse_price lang (p_price body) \<noteq> None \<and> \<not> falsy (p_category body)
                \<and> write_delay w \<and> write_fault w = None
             then w1\<lparr>collection := put_doc oid product (collection w)\<rparr>
             else w1))"
    using assms(2)
    by (auto simp: post racing_save_def save_def schema w1 split: option.splits)
  show "status (snd (product_post lang now oid files body w))
      = (if parse_price lang (p_price body) \<noteq> None \<and> \<not> falsy (p_category body)
            \<and> (write_delay w \<or> write_fault w = Some ''Database operation timed out'')
         then 504 else 500)"
    using assms(2)
    by (auto simp: post racing_save_def save_def schema w1 split: option.splits)
qed

lemma product_post_failed_disk:
  assumes "validateProduct lang body = (Next :: string product middleware)"
    and "parse_price lang (p_price body) = None \<or> falsy (p_category body)
         \<or> write_delay w \<or> write_fault w \<noteq> None"
  shows "disk (fst (product_post lang now oid files body w))
       = (disk w \<union> (\<lambda>f. path_join product_uploads (filename f)) ` set files)
         - ((\<lambda>f. path_join product_uploads (filename f)) ` set files - locked w)"
  unfolding product_post_failed(1) [OF assms]
  by (simp add: console_error_def unlink_uploaded_disk write_files_simps)

lemma product_post_failed_collection:
  assumes "validateProduct lang body = (Next :: string product middleware)"
    and "parse_price lang (p_price body) = None \<or> falsy (p_category body)
         \<or> write_delay w \<or> write_fault w \<noteq> None"
    and "parse_price lang (p_price body) = None \<or> falsy (p_category body)
         \<or> \<not> write_delay w \<or> write_fault w \<noteq> None"
  shows "collection (fst (product_post lang now oid files body w)) = collection w"
proof -
  have "\<not> (parse_price lang (p_price body) \<noteq> None \<and> \<not> falsy (p_category body)
      \<and> write_delay w \<and> write_fault w = None)"
    using assms(3) by auto
  then have "fst (product_post lang now oid files body w)
      = console_error ''Product creation error:''
          (unlink_uploaded files (write_files product_uploads files w))"
    unfolding product_post_failed(1) [OF assms(1,2)] by (simp only: if_False)
  then show ?thesis
    using unlink_uploaded_frame [of files "write_files product_uploads files w"]
    by (simp add: console_error_def write_files_simps)
qed

lemma product_post_late:
  assumes "validateProduct lang body = (Next :: string product middleware)"
    and "parse_price lang (p_price body) \<noteq> None" and "\<not> falsy (p_category body)"
    and "write_delay w" and "write_fault w = None"
  shows "map_of (collection (fst (product_post lang now oid files body w))) oid
      = Some (created_product lang now files body)"
proof -
  have f: "parse_price lang (p_price body) = None \<or> falsy (p_category body)
         \<or> write_delay w \<or> write_fault w \<noteq> None"
    using assms(4) by simp
  have "fst (product_post lang now oid files body w)
      = console_error ''Product creation error:''
          (unlink_uploaded files ((write_files product_uploads files w)
             \<lparr>collection := put_doc oid (created_product lang now files body) (collection w)\<rparr>))"
    unfolding product_post_failed(1) [OF assms(1) f] using assms(2-5) by simp
  then show ?thesis
    using unlink_uploaded_frame [of files "(write_files product_uploads files w)
             \<lparr>collection := put_doc oid (created_product lang now files body) (collection w)\<rparr>"]
    by (simp add: console_error_def map_of_put_doc)
qed

lemma product_post_failed_console:
  assumes "validateProduct lang body = (Next :: string product middleware)"
    and "parse_price lang (p_price body) = None \<or> falsy (p_category body)
         \<or> write_delay w \<or> write_fault w \<noteq> None"
  shows "console (fst (product_post lang now oid files body w))
       = console w
         @ replicate (length files
             - card ((\<lambda>f. path_join product_uploads (filename f)) ` set files - locked w))
             ''Error deleting file:''
         @ [''Product creation error:'']"
proof -
  let ?P = "\<lambda>f. path_join product_uploads (filename f)"
  define w0 where "w0 = (if parse_price lang (p_price body) \<noteq> None \<and> \<not> falsy (p_category body)
                \<and> write_delay w \<and> write_fault w = None
             then (write_files product_uploads files w)
                    \<lparr>collection := put_doc oid (created_product lang now files body) (collection w)\<rparr>
             else write_files product_uploads files w)"
  have w0: "disk w0 = disk w \<union> ?P ` set files" "locked w0 = locked w" "console w0 = console w"
    by (simp_all add: w0_def write_files_simps)
  from unlink_uploaded_console [of files w0] obtain k where
    k: "console (unlink_uploaded files w0) = console w0 @ replicate k ''Error deleting file:''"
      "k + card ((?P ` set files \<inter> disk w0) - locked w0) = length files"
    by blast
  have "?P ` set files \<inter> disk w0 = ?P ` set files"
    by (auto simp: w0)
  with k(2) have "k = length files - card (?P ` set files - locked w)"
    by (simp add: w0)
  then show ?thesis
    unfolding product_post_failed(1) [OF assms] w0_def [symmetric]
    by (simp add: console_error_def k(1) w0)
qed

text \<open>
  Claim C4, as amended. When the upload middleware has taken the K files of a product
  create, validation passes and the save fails (the schema rejects the document, the
  database rejects the write, or the write outlasts the 30 second timer), the handler
  unlinks every one of the K files before it answers. Afterwards none of them is on disk
  except those whose unlink the filesystem refused; each failed unlink is caught and
  logged with one line and the remaining files are still unlinked, so with no refusal
  none remains. The failure itself is logged with one line, and the answer is 504 when
  the failure is the timer's and 500 otherwise. A save that the schema or the database
  rejects stores no document. The timer does not cancel a slow write: when the database
  accepts it in the end, the document is stored although its files were unlinked.
\<close>

theorem create_failure_compensation:
  assumes "taken product_fileFilter files"
    and "validateProduct lang body = (Next :: string product middleware)"
    and "parse_price lang (p_price body) = None \<or> falsy (p_category body)
         \<or> write_delay w \<or> write_fault w \<noteq> None"
  shows "status (snd (product_post_route lang now oid files body w))
       = (if parse_price lang (p_price body) \<noteq> None \<and> \<not> falsy (p_category body)
             \<and> (write_delay w \<or> write_fault w = Some ''Database operation timed out'')
          then 504 else 500)
   \<and> disk (fst (product_post_route lang now oid files body w))
       = (disk w \<union> (\<lambda>f. path_join product_uploads (filename f)) ` set files)
         - ((\<lambda>f. path_join product_uploads (filename f)) ` set files - locked w)
   \<and> (\<forall>f \<in> set files. path_join product_uploads (filename f) \<in> locked w
         \<or> path_join product_uploads (filename f)
              \<notin> disk (fst (product_post_route lang now oid files body w)))
   \<and> (locked w \<inter> (\<lambda>f. path_join product_uploads (filename f)) ` set files = {} \<longrightarrow>
         (\<forall>f \<in> set files. path_join product_uploads (filename f)
            \<notin> disk (fst (product_post_route lang now oid files body w))))
   \<and> console (fst (product_post_route lang now oid files body w))
       = console w
         @ replicate (length files
             - card ((\<lambda>f. path_join product_uploads (filename f)) ` set files - locked w))
             ''Error deleting file:''
         @ [''Product creation error:'']
   \<and> (parse_price lang (p_price body) = None \<or> falsy (p_category body)
         \<or> \<not> write_delay w \<or> write_fault w \<noteq> None \<longrightarrow>
       collection (fst (product_post_route lang now oid files body w)) = collection w)
   \<and> (parse_price lang (p_price body) \<noteq> None \<and> \<not> falsy (p_category body)
         \<and> write_delay w \<and> write_fault w = None \<longrightarrow>
       map_of (collection (fst (product_post_route lang now oid files body w))) oid
         = Some (created_product lang now files body))"
  unfolding route_taken(3) [OF assms(1)] product_post_failed_disk [OF assms(2,3)]
    product_post_failed(2) [OF assms(2,3)] product_post_failed_console [OF assms(2,3)]
  using product_post_failed_collection [OF assms(2,3), of now oid files]
    product_post_late [OF assms(2), of w now oid files]
  by auto

lemma sample_paths:
  "path_join product_uploads (filename (sample_file ''product-1.png''))
     = [''public'', ''uploads'', ''products'', ''product-1.png'']"
  "path_join product_uploads (filename (sample_file ''product-2.png''))
     = [''public'', ''uploads'', ''products'', ''product-2.png'']"
  "path_join public_dir ''product-1.png'' = [''public'', ''product-1.png'']"
  "path_join blog_uploads (filename (sample_file ''1.png'')) = [''public'', ''uploads'', ''1.png'']"
  by (simp_all add: path_join_def product_uploads_def public_dir_def blog_uploads_def
      sample_file_def js_split_def)

lemma sample_valid:
  "validateProduct sample_js (sample_product_body ''abc'' ''0123456789'' (PString ''0.01''))
     = (Next :: string product middleware)"
  by (simp add: validateProduct_def sample_defs falsy_def field_length_def price_falsy_def
      price_number_def)

lemma sample_taken:
  "taken product_fileFilter [sample_file n]"
  "taken product_fileFilter [sample_file n, sample_file m]"
  "taken no_fileFilter [sample_file n]"
  by (simp_all add: taken_def maxCount_def fileSize_limit_def product_fileFilter_def
      no_fileFilter_def sample_file_def)

lemma sample_schema:
  "parse_price sample_js (p_price (sample_product_body ''abc'' ''0123456789'' (PString ''0.01'')))
     \<noteq> None"
  "\<not> falsy (p_category (sample_product_body ''abc'' ''0123456789'' (PString ''0.01'')))"
  by (simp_all add: parse_price_def sample_defs falsy_def)

theorem create_failure_compensation_witness:
  "status (snd (product_post_route sample_js 1 sample_id
       [sample_file ''product-1.png'', sample_file ''product-2.png'']
       (sample_product_body ''abc'' ''0123456789'' (PString ''0.01''))
       (empty_world\<lparr>write_fault := Some ''connection lost'', write_delay := True\<rparr>))) = 504
 \<and> disk (fst (product_post_route sample_js 1 sample_id
       [sample_file ''product-1.png'', sample_file ''product-2.png'']
       (sample_product_body ''abc'' ''0123456789'' (PString ''0.01''))
       (empty_world\<lparr>write_fault := Some ''connection lost'', write_delay := True\<rparr>))) = {}
 \<and> console (fst (product_post_route sample_js 1 sample_id
       [sample_file ''product-1.png'', sample_file ''product-2.png'']
       (sample_product_body ''abc'' ''0123456789'' (PString ''0.01''))
       (empty_world\<lparr>write_fault := Some ''connection lost'', write_delay := True\<rparr>)))
     = [''Product creation error:'']
 \<and> collection (fst (product_post_route sample_js 1 sample_id
       [sample_file ''product-1.png'', sample_file ''product-2.png'']
       (sample_product_body ''abc'' ''0123456789'' (PString ''0.01''))
       (empty_world\<lparr>write_fault := Some ''connection lost'', write_delay := True\<rparr>))) = []
 \<and> status (snd (product_post_route sample_js 1 sample_id [sample_file ''product-1.png'']
       ((sample_product_body ''abc'' ''0123456789'' (PString ''0.01''))\<lparr>p_category := None\<rparr>)
       empty_world)) = 500
 \<and> disk (fst (product_post_route sample_js 1 sample_id [sample_file ''product-1.png'']
       ((sample_product_body ''abc'' ''0123456789'' (PString ''0.01''))\<lparr>p_category := None\<rparr>)
       empty_world)) = {}
 \<and> collection (fst (product_post_route sample_js 1 sample_id [sample_file ''product-1.png'']
       ((sample_product_body ''abc'' ''0123456789'' (PString ''0.01''))\<lparr>p_category := None\<rparr>)
       empty_world)) = []
 \<and> status (snd (product_post_route sample_js 1 sample_id [sample_file ''product-1.png'']
       (sample_product_body ''abc'' ''0123456789'' (PString ''0.01''))
       (empty_world\<lparr>write_delay := True\<rparr>))) = 504
 \<and> disk (fst (product_post_route sample_js 1 sample_id [sample_file ''product-1.png'']
       (sample_product_body ''abc'' ''0123456789'' (PString ''0.01''))
       (empty_world\<lparr>write_delay := True\<rparr>))) = {}
 \<and> map_option images (map_of (collection (fst (product_post_route sample_js 1 sample_id
       [sample_file ''product-1.png''] (sample_product_body ''abc'' ''0123456789'' (PString ''0.01''))
       (empty_world\<lparr>write_delay := True\<rparr>)))) sample_id) = Some [''product-1.png'']"
proof -
  let ?w = "empty_world\<lparr>write_fault := Some ''connection lost'', write_delay := True\<rparr>
      :: string product world"
  let ?late = "empty_world\<lparr>write_delay := True\<rparr> :: string product world"
  let ?e = "empty_world :: string product world"
  let ?body = "sample_product_body ''abc'' ''0123456789'' (PString ''0.01'')"
  let ?nocat = "(sample_product_body ''abc'' ''0123456789'' (PString ''0.01''))\<lparr>p_category := None\<rparr>"
  let ?files = "[sample_file ''product-1.png'', sample_file ''product-2.png'']"
  let ?file = "[sample_file ''product-1.png'']"
  have f: "parse_price sample_js (p_price ?body) = None \<or> falsy (p_category ?body)
      \<or> write_delay ?w \<or> write_fault ?w \<noteq> None"
    by simp
  note t = create_failure_compensation [OF sample_taken(2) sample_valid f, of 1 sample_id]
  have 1: "status (snd (product_post_route sample_js 1 sample_id ?files ?body ?w)) = 504"
    using t [THEN conjunct1] sample_schema by simp
  have 2: "disk (fst (product_post_route sample_js 1 sample_id ?files ?body ?w)) = {}"
    unfolding t [THEN conjunct2, THEN conjunct1] by (simp add: empty_world_def)
  have 3: "console (fst (product_post_route sample_js 1 sample_id ?files ?body ?w))
      = [''Product creation error:'']"
    unfolding t [THEN conjunct2, THEN conjunct2, THEN conjunct2, THEN conjunct2, THEN conjunct1]
    by (simp add: empty_world_def sample_paths)
  have 4: "collection (fst (product_post_route sample_js 1 sample_id ?files ?body ?w)) = []"
    using t [THEN conjunct2, THEN conjunct2, THEN conjunct2, THEN conjunct2, THEN conjunct2,
        THEN conjunct1]
    by (simp add: empty_world_def)
  have v: "validateProduct sample_js ?nocat = (Next :: string product middleware)"
    by (simp add: validateProduct_def sample_defs falsy_def field_length_def price_falsy_def
        price_number_def)
  have c: "falsy (p_category ?nocat)"
    by (simp add: falsy_def)
  then have g: "parse_price sample_js (p_price ?nocat) = None \<or> falsy (p_category ?nocat)
      \<or> write_delay ?e \<or> write_fault ?e \<noteq> None"
    by simp
  note tk = sample_taken(1) [of "''product-1.png''"]
  note s = create_failure_compensation [OF tk v g, of 1 sample_id]
  have 5: "status (snd (product_post_route sample_js 1 sample_id ?file ?nocat ?e)) = 500"
    using s [THEN conjunct1] c by simp
  have 6: "disk (fst (product_post_route sample_js 1 sample_id ?file ?nocat ?e)) = {}"
    unfolding s [THEN conjunct2, THEN conjunct1] by (simp add: empty_world_def)
  have 7: "collection (fst (product_post_route sample_js 1 sample_id ?file ?nocat ?e)) = []"
    using s [THEN conjunct2, THEN conjunct2, THEN conjunct2, THEN conjunct2, THEN conjunct2,
        THEN conjunct1] c
    by (simp add: empty_world_def)
  have h: "parse_price sample_js (p_price ?body) = None \<or> falsy (p_category ?body)
      \<or> write_delay ?late \<or> write_fault ?late \<noteq> None"
    by simp
  have wl: "write_delay ?late" "write_fault ?late = None"
    by (simp_all add: empty_world_def)
  note l = create_failure_compensation [OF tk sample_valid h, of 1 sample_id]
  have 8: "status (snd (product_post_route sample_js 1 sample_id ?file ?body ?late)) = 504"
    using l [THEN conjunct1] sample_schema by simp
  have 9: "disk (fst (product_post_route sample_js 1 sample_id ?file ?body ?late)) = {}"
    unfolding l [THEN conjunct2, THEN conjunct1] by (simp add: empty_world_def)
  have "map_of (collection (fst (product_post_route sample_js 1 sample_id ?file ?body ?late)))
      sample_id = Some (created_product sample_js 1 ?file ?body)"
    using l [THEN conjunct2, THEN conjunct2, THEN conjunct2, THEN conjunct2, THEN conjunct2,
        THEN conjunct2] sample_schema wl
    by blast
  then have 10: "map_option images (map_of (collection (fst (product_post_route sample_js 1
      sample_id ?file ?body ?late))) sample_id) = Some [''product-1.png'']"
    by (simp add: created_product_def sample_file_def)
  from 1 2 3 4 5 6 7 8 9 10 show ?thesis by blast
qed

text \<open>
  Claim C4 as stated fails: the write of the document fails, the filesystem refuses to
  unlink the uploaded file, and the file is still on disk when 500 is answered.
\<close>

theorem create_failure_orphan_counterexample:
  "status (snd (product_post_route sample_js 1 sample_id [sample_file ''product-1.png'']
       (sample_product_body ''abc'' ''0123456789'' (PString ''0.01''))
       (empty_world\<lparr>locked := {[''public'', ''uploads'', ''products'', ''product-1.png'']},
                     write_fault := Some ''connection lost''\<rparr>))) = 500
 \<and> [''public'', ''uploads'', ''products'', ''product-1.png'']
     \<in> disk (fst (product_post_route sample_js 1 sample_id [sample_file ''product-1.png'']
       (sample_product_body ''abc'' ''0123456789'' (PString ''0.01''))
       (empty_world\<lparr>locked := {[''public'', ''uploads'', ''products'', ''product-1.png'']},
                     write_fault := Some ''connection lost''\<rparr>)))
 \<and> console (fst (product_post_route sample_js 1 sample_id [sample_file ''product-1.png'']
       (sample_product_body ''abc'' ''0123456789'' (PString ''0.01''))
       (empty_world\<lparr>locked := {[''public'', ''uploads'', ''products'', ''product-1.png'']},
                     write_fault := Some ''connection lost''\<rparr>)))
     = [''Error deleting file:'', ''Product creation error:'']
 \<and> collection (fst (product_post_route sample_js 1 sample_id [sample_file ''product-1.png'']
       (sample_product_body ''abc'' ''0123456789'' (PString ''0.01''))
       (empty_world\<lparr>locked := {[''public'', ''uploads'', ''products'', ''product-1.png'']},
                     write_fault := Some ''connection lost''\<rparr>))) = []"
proof -
  let ?w = "empty_world\<lparr>locked := {[''public'', ''uploads'', ''products'', ''product-1.png'']},
                     write_fault := Some ''connection lost''\<rparr> :: string product world"
  let ?body = "sample_product_body ''abc'' ''0123456789'' (PString ''0.01'')"
  have f: "parse_price sample_js (p_price ?body) = None \<or> falsy (p_category ?body)
      \<or> write_delay ?w \<or> write_fault ?w \<noteq> None"
    by simp
  have g: "parse_price sample_js (p_price ?body) = None \<or> falsy (p_category ?body)
      \<or> \<not> write_delay ?w \<or> write_fault ?w \<noteq> None"
    by simp
  note r = route_taken(3) [OF sample_taken(1), of sample_js 1 sample_id "''product-1.png''" ?body ?w]
  note e = product_post_failed(2) [OF sample_valid f, of 1 sample_id "[sample_file ''product-1.png'']"]
  note d = product_post_failed_disk [OF sample_valid f, of 1 sample_id "[sample_file ''product-1.png'']"]
  note c = product_post_failed_console [OF sample_valid f, of 1 sample_id "[sample_file ''product-1.png'']"]
  note k = product_post_failed_collection [OF sample_valid f g, of 1 sample_id "[sample_file ''product-1.png'']"]
  have 1: "status (snd (product_post_route sample_js 1 sample_id [sample_file ''product-1.png'']
       ?body ?w)) = 500"
    unfolding r e by (simp add: empty_world_def)
  have 2: "[''public'', ''uploads'', ''products'', ''product-1.png'']
     \<in> disk (fst (product_post_route sample_js 1 sample_id [sample_file ''product-1.png'']
       ?body ?w))"
    unfolding r d by (simp add: sample_paths)
  have 3: "console (fst (product_post_route sample_js 1 sample_id [sample_file ''product-1.png'']
       ?body ?w)) = [''Error deleting file:'', ''Product creation error:'']"
    unfolding r c by (simp add: sample_paths empty_world_def)
  have 4: "collection (fst (product_post_route sample_js 1 sample_id [sample_file ''product-1.png'']
       ?body ?w)) = []"
    unfolding r k by (simp add: empty_world_def)
  from 1 2 3 4 show ?thesis by blast
qed

section \<open>Validation and the upload middleware\<close>

lemma validateProduct_status:
  "validateProduct lang body = Respond r \<Longrightarrow> status r = 400"
  by (auto simp: validateProduct_def reply_def split: if_splits)

lemma validateBlogPost_status:
  "validateBlogPost post = Respond r \<Longrightarrow> status r = 400"
  by (auto simp: validateBlogPost_def reply_def split: if_splits)

lemma route_rejected:
  "validateProduct lang body = Respond r
     \<Longrightarrow> product_post lang now oid files body w = (write_files product_uploads files w, r)"
  "validateProduct lang body = Respond r
     \<Longrightarrow> product_put lang now oid files body w = (write_files product_uploads files w, r)"
  "validateBlogPost post = Respond q
     \<Longrightarrow> blog_post now oid files post b = (write_files blog_uploads files b, q)"
  "validateBlogPost post = Respond q
     \<Longrightarrow> blog_put oid files post b = (write_files blog_uploads files b, q)"
  by (simp_all add: product_post_def product_put_def blog_post_def blog_put_def)

text \<open>
  Claim C3, as amended. The upload middleware runs before the validator. When it takes
  every file of the request, the files are on disk when validation fails: the route
  answers 400 with exactly the world the upload left, so the uploaded files stay on disk,
  no document is touched and nothing is cleaned up or logged. When it refuses a file (an
  eleventh file, another field, a type the product filter rejects, more than 5 MB), the
  validator never runs: whatever the fields are, the error middleware logs one line and
  answers 500, no document is touched, and what the upload had written is unlinked.
\<close>

theorem validation_after_upload:
  "(taken product_fileFilter files
      \<and> validateProduct lang body \<noteq> (Next :: string product middleware) \<longrightarrow>
       status (snd (product_post_route lang now oid files body w)) = 400
     \<and> fst (product_post_route lang now oid files body w) = write_files product_uploads files w
     \<and> status (snd (product_put_route lang now oid files body w)) = 400
     \<and> fst (product_put_route lang now oid files body w) = write_files product_uploads files w)
 \<and> (taken no_fileFilter files \<and> validateBlogPost post \<noteq> (Next :: blog middleware) \<longrightarrow>
       status (snd (blog_post_route now oid files post b)) = 400
     \<and> fst (blog_post_route now oid files post b) = write_files blog_uploads files b
     \<and> status (snd (blog_put_route oid files post b)) = 400
     \<and> fst (blog_put_route oid files post b) = write_files blog_uploads files b)
 \<and> (\<not> taken product_fileFilter files \<longrightarrow>
       refused_by (product_post_route lang now oid files body w) w
     \<and> refused_by (product_put_route lang now oid files body w) w)
 \<and> (\<not> taken no_fileFilter files \<longrightarrow>
       refused_by (blog_post_route now oid files post b) b
     \<and> refused_by (blog_put_route oid files post b) b)
 \<and> disk (write_files dest files w) = disk w \<union> (\<lambda>f. path_join dest (filename f)) ` set files
 \<and> collection (write_files dest files w) = collection w
 \<and> console (write_files dest files w) = console w"
proof -
  have p: "status (snd (product_post_route lang now oid files body w)) = 400
     \<and> fst (product_post_route lang now oid files body w) = write_files product_uploads files w
     \<and> status (snd (product_put_route lang now oid files body w)) = 400
     \<and> fst (product_put_route lang now oid files body w) = write_files product_uploads files w"
    if "taken product_fileFilter files"
      and "validateProduct lang body \<noteq> (Next :: string product middleware)"
  proof -
    from that(2) obtain r where r: "validateProduct lang body = (Respond r :: string product middleware)"
      by (cases "validateProduct lang body :: string product middleware") auto
    show ?thesis
      using validateProduct_status [OF r]
      by (simp add: route_taken(3,4) [OF that(1)] route_rejected(1,2) [OF r])
  qed
  have q: "status (snd (blog_post_route now oid files post b)) = 400
     \<and> fst (blog_post_route now oid files post b) = write_files blog_uploads files b
     \<and> status (snd (blog_put_route oid files post b)) = 400
     \<and> fst (blog_put_route oid files post b) = write_files blog_uploads files b"
    if "taken no_fileFilter files" and "validateBlogPost post \<noteq> (Next :: blog middleware)"
  proof -
    from that(2) obtain r where r: "validateBlogPost post = (Respond r :: blog middleware)"
      by (cases "validateBlogPost post :: blog middleware") auto
    show ?thesis
      using validateBlogPost_status [OF r]
      by (simp add: route_taken(1,2) [OF that(1)] route_rejected(3,4) [OF r])
  qed
  show ?thesis
    using p q route_refused [of files] by (simp add: write_files_simps)
qed

lemma sample_invalid:
  "validateProduct sample_js (sample_product_body ''ab'' ''0123456789'' (PString ''0.01''))
     = (Respond (reply 400 ''Title must be between 3 and 100 characters'') :: string product middleware)"
  "validateBlogPost (sample_post ''ab'' ''0123456789'')
     = (Respond (reply 400 ''Title must be between 3 and 100 characters'') :: blog middleware)"
  by (simp_all add: validateProduct_def validateBlogPost_def sample_defs falsy_def field_length_def
      price_falsy_def price_number_def)

lemma sample_not_taken:
  "\<not> taken product_fileFilter [sample_file n\<lparr>mimetype := ''text/plain''\<rparr>]"
  "\<not> taken no_fileFilter [sample_file n\<lparr>file_size := 6000000\<rparr>]"
  by (simp_all add: taken_def product_fileFilter_def no_fileFilter_def fileSize_limit_def
      sample_file_def)

theorem validation_after_upload_witness:
  "status (snd (product_post_route sample_js 1 sample_id [sample_file ''product-1.png'']
       (sample_product_body ''ab'' ''0123456789'' (PString ''0.01'')) empty_world)) = 400
 \<and> disk (fst (product_post_route sample_js 1 sample_id [sample_file ''product-1.png'']
       (sample_product_body ''ab'' ''0123456789'' (PString ''0.01'')) empty_world))
     = {[''public'', ''uploads'', ''products'', ''product-1.png'']}
 \<and> console (fst (product_post_route sample_js 1 sample_id [sample_file ''product-1.png'']
       (sample_product_body ''ab'' ''0123456789'' (PString ''0.01'')) empty_world)) = []
 \<and> status (snd (blog_post_route 1 sample_id [sample_file ''1.png'']
       (sample_post ''ab'' ''0123456789'') empty_world)) = 400
 \<and> disk (fst (blog_post_route 1 sample_id [sample_file ''1.png'']
       (sample_post ''ab'' ''0123456789'') empty_world)) = {[''public'', ''uploads'', ''1.png'']}
 \<and> status (snd (product_post_route sample_js 1 sample_id
       [sample_file ''product-1.png''\<lparr>mimetype := ''text/plain''\<rparr>]
       (sample_product_body ''ab'' ''0123456789'' (PString ''0.01'')) empty_world)) = 500
 \<and> disk (fst (product_post_route sample_js 1 sample_id
       [sample_file ''product-1.png''\<lparr>mimetype := ''text/plain''\<rparr>]
       (sample_product_body ''ab'' ''0123456789'' (PString ''0.01'')) empty_world)) = {}
 \<and> console (fst (product_post_route sample_js 1 sample_id
       [sample_file ''product-1.png''\<lparr>mimetype := ''text/plain''\<rparr>]
       (sample_product_body ''ab'' ''0123456789'' (PString ''0.01'')) empty_world))
     = [''Error details:'']
 \<and> status (snd (blog_put_route sample_id [sample_file ''1.png''\<lparr>file_size := 6000000\<rparr>]
       (sample_post ''ab'' ''0123456789'') empty_world)) = 500
 \<and> disk (fst (blog_put_route sample_id [sample_file ''1.png''\<lparr>file_size := 6000000\<rparr>]
       (sample_post ''ab'' ''0123456789'') empty_world)) = {}"
proof -
  let ?body = "sample_product_body ''ab'' ''0123456789'' (PString ''0.01'')"
  let ?post = "sample_post ''ab'' ''0123456789''"
  let ?w = "empty_world :: string product world"
  let ?b = "empty_world :: blog world"
  have n: "validateProduct sample_js ?body \<noteq> (Next :: string product middleware)"
    "validateBlogPost ?post \<noteq> (Next :: blog middleware)"
    by (simp_all add: sample_invalid)
  note t1 = validation_after_upload [where lang = sample_js and body = ?body and now = 1
      and oid = sample_id and files = "[sample_file ''product-1.png'']" and w = ?w
      and post = ?post and b = ?b and dest = product_uploads]
  note t2 = validation_after_upload [where lang = sample_js and body = ?body and now = 1
      and oid = sample_id and files = "[sample_file ''1.png'']" and w = ?w
      and post = ?post and b = ?b and dest = blog_uploads]
  note t3 = validation_after_upload [where lang = sample_js and body = ?body and now = 1
      and oid = sample_id and files = "[sample_file ''product-1.png''\<lparr>mimetype := ''text/plain''\<rparr>]"
      and w = ?w and post = ?post and b = ?b and dest = product_uploads]
  note t4 = validation_after_upload [where lang = sample_js and body = ?body and now = 1
      and oid = sample_id and files = "[sample_file ''1.png''\<lparr>file_size := 6000000\<rparr>]"
      and w = ?w and post = ?post and b = ?b and dest = blog_uploads]
  have 1: "status (snd (product_post_route sample_js 1 sample_id [sample_file ''product-1.png'']
       ?body ?w)) = 400"
    and 2: "fst (product_post_route sample_js 1 sample_id [sample_file ''product-1.png''] ?body ?w)
         = write_files product_uploads [sample_file ''product-1.png''] ?w"
    using t1 n sample_taken(1) [of "''product-1.png''"] by blast+
  have 3: "status (snd (blog_post_route 1 sample_id [sample_file ''1.png''] ?post ?b)) = 400"
    and 4: "fst (blog_post_route 1 sample_id [sample_file ''1.png''] ?post ?b)
         = write_files blog_uploads [sample_file ''1.png''] ?b"
    using t2 n sample_taken(3) [of "''1.png''"] by blast+
  have 5: "disk (write_files product_uploads [sample_file ''product-1.png''] ?w)
      = {[''public'', ''uploads'', ''products'', ''product-1.png'']}"
    "console (write_files product_uploads [sample_file ''product-1.png''] ?w) = []"
    "disk (write_files blog_uploads [sample_file ''1.png''] ?b) = {[''public'', ''uploads'', ''1.png'']}"
    by (simp_all add: write_files_simps sample_paths empty_world_def)
  have "refused_by (product_post_route sample_js 1 sample_id
       [sample_file ''product-1.png''\<lparr>mimetype := ''text/plain''\<rparr>] ?body ?w) ?w"
    using t3 sample_not_taken(1) [of "''product-1.png''"] by blast
  then have 6: "status (snd (product_post_route sample_js 1 sample_id
       [sample_file ''product-1.png''\<lparr>mimetype := ''text/plain''\<rparr>] ?body ?w)) = 500"
    "disk (fst (product_post_route sample_js 1 sample_id
       [sample_file ''product-1.png''\<lparr>mimetype := ''text/plain''\<rparr>] ?body ?w)) = {}"
    "console (fst (product_post_route sample_js 1 sample_id
       [sample_file ''product-1.png''\<lparr>mimetype := ''text/plain''\<rparr>] ?body ?w))
       = [''Error details:'']"
    by (simp_all add: refused_by_def reply_def empty_world_def)
  have "refused_by (blog_put_route sample_id [sample_file ''1.png''\<lparr>file_size := 6000000\<rparr>]
       ?post ?b) ?b"
    using t4 sample_not_taken(2) [of "''1.png''"] by blast
  then have 7: "status (snd (blog_put_route sample_id
       [sample_file ''1.png''\<lparr>file_size := 6000000\<rparr>] ?post ?b)) = 500"
    "disk (fst (blog_put_route sample_id
       [sample_file ''1.png''\<lparr>file_size := 6000000\<rparr>] ?post ?b)) = {}"
    by (simp_all add: refused_by_def reply_def empty_world_def)
  show ?thesis
    unfolding 1 2 3 4 5 6 7 by simp
qed

text \<open>
  Claim C3 as stated fails: a product create with a two-character title is answered with
  400, and the file of the request, absent before, is on disk.
\<close>

theorem validation_after_upload_counterexample:
  "status (snd (product_post_route sample_js 1 sample_id [sample_file ''product-1.png'']
       (sample_product_body ''ab'' ''0123456789'' (PString ''0.01'')) empty_world)) = 400
 \<and> [''public'', ''uploads'', ''products'', ''product-1.png'']
     \<in> disk (fst (product_post_route sample_js 1 sample_id [sample_file ''product-1.png'']
       (sample_product_body ''ab'' ''0123456789'' (PString ''0.01'')) empty_world))
 \<and> [''public'', ''uploads'', ''products'', ''product-1.png'']
     \<notin> disk (empty_world :: string product world)"
  by (simp add: route_taken(3) [OF sample_taken(1)] route_rejected(1) [OF sample_invalid(1)]
      reply_def write_files_simps sample_paths empty_world_def)

section \<open>Cleanup of unused images on update\<close>

lemma cleanup_disk:
  "disk (cleanupUnusedImages old new w)
     = disk w - (path_join public_dir ` (set old - set new) - locked w)"
  "collection (cleanupUnusedImages old new w) = collection w"
  "locked (cleanupUnusedImages old new w) = locked w"
  "write_fault (cleanupUnusedImages old new w) = write_fault w"
proof -
  have "set (filter (\<lambda>img. img \<notin> set new) old) = set old - set new" by auto
  then show "disk (cleanupUnusedImages old new w)
     = disk w - (path_join public_dir ` (set old - set new) - locked w)"
    by (simp add: cleanupUnusedImages_def cleanup_each_disk)
qed (simp_all add: cleanupUnusedImages_def cleanup_each_frame)

lemma cleanup_missing:
  "path_join public_dir img \<notin> disk w \<Longrightarrow> cleanupUnusedImages [img] new w = w"
  by (simp add: cleanupUnusedImages_def existsSync_def)

lemma cleanup_superset: "cleanupUnusedImages old (old @ new) w = w"
proof -
  have "filter (\<lambda>img. img \<notin> set (old @ new)) old = []" by (simp add: filter_empty_conv)
  then show ?thesis by (simp add: cleanupUnusedImages_def)
qed

lemma validated_post:
  assumes "validateBlogPost body = (Next :: 'a middleware)"
  shows "text_of (b_title body) \<noteq> []" and "text_of (b_content body) \<noteq> []"
  using assms
  by (auto simp: validateBlogPost_def falsy_def text_of_def split: if_splits option.splits)

lemma findById_upload: "findById (write_files dest files w) i = findById w i"
  by (simp add: findById_def write_files_def)

lemma blog_put_ok:
  assumes "validateBlogPost body = (Next :: blog middleware)"
    and "findById w i = Inr (Some blog)"
    and "write_fault w = None"
  shows "blog_put i files body w
      = ((write_files blog_uploads files w)\<lparr>collection := put_doc i (updated_blog blog files body) (collection w)\<rparr>,
         reply_doc 200 (updated_blog blog files body))"
  using assms validated_post [OF assms(1)]
  by (simp add: blog_put_def blog_update_handler_def findById_upload Let_def cleanup_superset
      save_def blog_schema_def write_files_simps updated_blog_def)


text \<open>
  Claim C2, as amended. \<open>cleanupUnusedImages\<close> removes from disk the files of the old
  references that are absent from the new list, except a file whose unlink the filesystem
  refuses, and leaves every other file and the documents alone; a reference whose file is
  already missing is skipped without an error. The blog update, however, takes no image
  list from the caller: it appends the references of the uploaded files to the stored
  list and calls the cleanup with that longer list, which removes nothing. With old list
  a, b, c and d uploaded the stored list is a, b, c, d and every file stays on disk.
\<close>

theorem local_update_cleanup:
  "disk (cleanupUnusedImages old new w)
     = disk w - (path_join public_dir ` (set old - set new) - locked w)
 \<and> collection (cleanupUnusedImages old new w) = collection w
 \<and> (path_join public_dir img \<notin> disk w \<longrightarrow> cleanupUnusedImages [img] new w = w)
 \<and> (validateBlogPost body = (Next :: blog middleware) \<and> findById b i = Inr (Some blog)
      \<and> write_fault b = None \<longrightarrow>
        status (snd (blog_put i files body b)) = 200
      \<and> map blog_images (sent (snd (blog_put i files body b)))
          = [blog_images blog @ map blog_ref files]
      \<and> map_of (collection (fst (blog_put i files body b))) i = payload (snd (blog_put i files body b))
      \<and> disk (fst (blog_put i files body b))
          = disk b \<union> (\<lambda>f. path_join blog_uploads (filename f)) ` set files)"
proof -
  have u: "status (snd (blog_put i files body b)) = 200
      \<and> map blog_images (sent (snd (blog_put i files body b)))
          = [blog_images blog @ map blog_ref files]
      \<and> map_of (collection (fst (blog_put i files body b))) i = payload (snd (blog_put i files body b))
      \<and> disk (fst (blog_put i files body b))
          = disk b \<union> (\<lambda>f. path_join blog_uploads (filename f)) ` set files"
    if "validateBlogPost body = (Next :: blog middleware)" "findById b i = Inr (Some blog)"
      "write_fault b = None"
    by (simp add: blog_put_ok [OF that] reply_doc_def sent_def map_of_put_doc write_files_simps
        updated_blog_def)
  show ?thesis
    using u cleanup_missing [of img w new] by (simp add: cleanup_disk)
qed

lemma sample_blog_paths:
  "path_join public_dir ''/uploads/a.png'' = [''public'', ''uploads'', ''a.png'']"
  "path_join public_dir ''/uploads/b.png'' = [''public'', ''uploads'', ''b.png'']"
  "path_join public_dir ''/uploads/c.png'' = [''public'', ''uploads'', ''c.png'']"
  "path_join public_dir ''/uploads/missing.png'' = [''public'', ''uploads'', ''missing.png'']"
  "path_join blog_uploads (filename (sample_file ''d.png'')) = [''public'', ''uploads'', ''d.png'']"
  "blog_ref (sample_file ''d.png'') = ''/uploads/d.png''"
  by (simp_all add: path_join_def public_dir_def blog_uploads_def sample_file_def js_split_def
      blog_ref_def)

lemma sample_blog_facts:
  "validateBlogPost (sample_post ''abc'' ''0123456789'') = (Next :: blog middleware)"
  "findById sample_blog_world sample_id = Inr (Some
     \<lparr>blog_title = ''post'', blog_content = ''0123456789'', blog_category = Some ''corporate'',
      blog_date = 1, readTime = 1,
      blog_images = [''/uploads/a.png'', ''/uploads/b.png'', ''/uploads/c.png'']\<rparr>)"
  "write_fault sample_blog_world = None"
  "locked sample_blog_world = {}"
  "disk sample_blog_world = {[''public'', ''uploads'', ''a.png''], [''public'', ''uploads'', ''b.png''],
      [''public'', ''uploads'', ''c.png'']}"
  by (simp_all add: validateBlogPost_def sample_defs falsy_def field_length_def findById_def
      isValid_def sample_id_def hex_digit_def sample_blog_world_def)

theorem local_update_cleanup_witness:
  "disk (cleanupUnusedImages [''/uploads/a.png'', ''/uploads/b.png'', ''/uploads/c.png'']
       [''/uploads/b.png'', ''/uploads/c.png'', ''/uploads/d.png''] sample_blog_world)
     = {[''public'', ''uploads'', ''b.png''], [''public'', ''uploads'', ''c.png'']}
 \<and> cleanupUnusedImages [''/uploads/missing.png''] [] sample_blog_world = sample_blog_world
 \<and> status (snd (blog_put sample_id [sample_file ''d.png''] (sample_post ''abc'' ''0123456789'')
       sample_blog_world)) = 200
 \<and> map blog_images (sent (snd (blog_put sample_id [sample_file ''d.png'']
       (sample_post ''abc'' ''0123456789'') sample_blog_world)))
     = [[''/uploads/a.png'', ''/uploads/b.png'', ''/uploads/c.png'', ''/uploads/d.png'']]
 \<and> disk (fst (blog_put sample_id [sample_file ''d.png''] (sample_post ''abc'' ''0123456789'')
       sample_blog_world))
     = {[''public'', ''uploads'', ''a.png''], [''public'', ''uploads'', ''b.png''],
        [''public'', ''uploads'', ''c.png''], [''public'', ''uploads'', ''d.png'']}"
proof -
  note t1 = local_update_cleanup [where old = "[''/uploads/a.png'', ''/uploads/b.png'', ''/uploads/c.png'']"
      and new = "[''/uploads/b.png'', ''/uploads/c.png'', ''/uploads/d.png'']"
      and w = sample_blog_world and img = "''/uploads/missing.png''"
      and body = "sample_post ''abc'' ''0123456789''" and b = sample_blog_world and i = sample_id
      and files = "[sample_file ''d.png'']"]
  note t2 = local_update_cleanup [where old = "[]" and new = "[]"
      and w = sample_blog_world and img = "''/uploads/missing.png''"
      and body = "sample_post ''abc'' ''0123456789''" and b = sample_blog_world and i = sample_id
      and files = "[sample_file ''d.png'']"]
  have 1: "disk (cleanupUnusedImages [''/uploads/a.png'', ''/uploads/b.png'', ''/uploads/c.png'']
       [''/uploads/b.png'', ''/uploads/c.png'', ''/uploads/d.png''] sample_blog_world)
     = {[''public'', ''uploads'', ''b.png''], [''public'', ''uploads'', ''c.png'']}"
  proof -
    have sd: "set [''/uploads/a.png'', ''/uploads/b.png'', ''/uploads/c.png'']
        - set [''/uploads/b.png'', ''/uploads/c.png'', ''/uploads/d.png''] = {''/uploads/a.png''}"
      by auto
    show ?thesis
      unfolding t1 [THEN conjunct1] sd by (auto simp: sample_blog_facts sample_blog_paths)
  qed
  have m: "path_join public_dir ''/uploads/missing.png'' \<notin> disk sample_blog_world"
    by (simp add: sample_blog_facts sample_blog_paths)
  have 2: "cleanupUnusedImages [''/uploads/missing.png''] [] sample_blog_world = sample_blog_world"
    using t2 m by blast
  have u: "status (snd (blog_put sample_id [sample_file ''d.png''] (sample_post ''abc'' ''0123456789'')
       sample_blog_world)) = 200
      \<and> map blog_images (sent (snd (blog_put sample_id [sample_file ''d.png'']
           (sample_post ''abc'' ''0123456789'') sample_blog_world)))
          = [blog_images \<lparr>blog_title = ''post'', blog_content = ''0123456789'',
               blog_category = Some ''corporate'', blog_date = 1, readTime = 1,
               blog_images = [''/uploads/a.png'', ''/uploads/b.png'', ''/uploads/c.png'']\<rparr>
             @ map blog_ref [sample_file ''d.png'']]
      \<and> map_of (collection (fst (blog_put sample_id [sample_file ''d.png'']
           (sample_post ''abc'' ''0123456789'') sample_blog_world))) sample_id
          = payload (snd (blog_put sample_id [sample_file ''d.png'']
           (sample_post ''abc'' ''0123456789'') sample_blog_world))
      \<and> disk (fst (blog_put sample_id [sample_file ''d.png''] (sample_post ''abc'' ''0123456789'')
           sample_blog_world))
          = disk sample_blog_world \<union> (\<lambda>f. path_join blog_uploads (filename f)) ` set [sample_file ''d.png'']"
    using t1 sample_blog_facts(1,2,3) by blast
  have 3: "status (snd (blog_put sample_id [sample_file ''d.png''] (sample_post ''abc'' ''0123456789'')
       sample_blog_world)) = 200"
    using u by blast
  have 4: "map blog_images (sent (snd (blog_put sample_id [sample_file ''d.png'']
       (sample_post ''abc'' ''0123456789'') sample_blog_world)))
     = [[''/uploads/a.png'', ''/uploads/b.png'', ''/uploads/c.png'', ''/uploads/d.png'']]"
    unfolding u [THEN conjunct2, THEN conjunct1] by (simp add: sample_blog_paths)
  have 5: "disk (fst (blog_put sample_id [sample_file ''d.png''] (sample_post ''abc'' ''0123456789'')
       sample_blog_world))
     = {[''public'', ''uploads'', ''a.png''], [''public'', ''uploads'', ''b.png''],
        [''public'', ''uploads'', ''c.png''], [''public'', ''uploads'', ''d.png'']}"
    unfolding u [THEN conjunct2, THEN conjunct2, THEN conjunct2]
    by (auto simp: sample_blog_facts sample_blog_paths)
  from 1 2 3 4 5 show ?thesis by blast
qed

text \<open>
  Claim C2 as stated fails: after the update of a post with images a, b, c and d uploaded,
  the stored list is not b, c, d and the file of a is still on disk.
\<close>

theorem local_update_set_difference_counterexample:
  "map blog_images (sent (snd (blog_put sample_id [sample_file ''d.png'']
       (sample_post ''abc'' ''0123456789'') sample_blog_world)))
     \<noteq> [[''/uploads/b.png'', ''/uploads/c.png'', ''/uploads/d.png'']]
 \<and> map blog_images (sent (snd (blog_put sample_id [sample_file ''d.png'']
       (sample_post ''abc'' ''0123456789'') sample_blog_world)))
     = [[''/uploads/a.png'', ''/uploads/b.png'', ''/uploads/c.png'', ''/uploads/d.png'']]
 \<and> [''public'', ''uploads'', ''a.png'']
     \<in> disk (fst (blog_put sample_id [sample_file ''d.png''] (sample_post ''abc'' ''0123456789'')
           sample_blog_world))"
  by (simp add: blog_put_ok [OF sample_blog_facts(1,2,3)] reply_doc_def sent_def updated_blog_def
      write_files_simps sample_blog_facts(5) sample_blog_paths)

section \<open>Outcomes of the upload routes\<close>




lemma product_post_ok:
  assumes "validateProduct lang body = (Next :: string product middleware)"
    and "write_fault w = None"
    and "parse_price lang (p_price body) \<noteq> None" and "\<not> falsy (p_category body)"
    and "\<not> write_delay w"
  shows "product_post lang now oid files body w
      = ((write_files product_uploads files w)
           \<lparr>collection := put_doc oid (created_product lang now files body) (collection w)\<rparr>,
         reply_doc 201 (created_product lang now files body))"
proof -
  from assms(3) obtain y where y: "parse_price lang (p_price body) = Some y"
    by auto
  show ?thesis
    using assms(1,2,4,5) validated_fields [OF assms(1)]
    by (simp add: product_post_def product_create_handler_def Let_def racing_save_def save_def
        product_schema_def write_files_simps created_product_def y)
qed








lemma sample_create_facts:
  "parse_price sample_js (p_price (sample_product_body ''abc'' ''0123456789'' (PString ''0.01''))) \<noteq> None"
  "\<not> falsy (p_category (sample_product_body ''abc'' ''0123456789'' (PString ''0.01'')))"
  "write_fault (empty_world :: string product world) = None"
  "write_fault (empty_world\<lparr>write_fault := Some ''connection lost''\<rparr> :: string product world)
     = Some ''connection lost''"
  "locked (empty_world\<lparr>write_fault := Some ''connection lost''\<rparr> :: string product world) = {}"
  "disk (empty_world :: string product world) = {}"
  "collection (empty_world :: string product world) = []"
  "\<not> write_delay (empty_world :: string product world)"
  by (simp_all add: parse_price_def sample_defs falsy_def empty_world_def)

section \<open>The upload lifecycle\<close>






section \<open>Deleting a product\<close>

lemma destroy_images_frame:
  "collection (destroy_images imgs w) = collection w
 \<and> write_fault (destroy_images imgs w) = write_fault w
 \<and> destroy_fault (destroy_images imgs w) = destroy_fault w"
  by (induction imgs arbitrary: w) (simp_all add: destroy_def console_error_def)

lemma destroy_images_assets:
  "assets (destroy_images imgs w)
     = assets w - {i \<in> public_id ` set imgs. i \<noteq> [] \<and> i \<notin> destroy_fault w}"
proof (induction imgs arbitrary: w)
  case Nil
  show ?case by simp
next
  case (Cons img imgs)
  show ?case
    by (auto simp: destroy_def console_error_def Cons)
qed

lemma delete_not_found:
  assumes "isValid i" and "map_of (collection p) i = None"
  shows "product_delete i p = (p, reply 404 ''Product not found'')"
  using assms by (simp add: product_delete_def findById_def)

lemma cloud_delete_not_found:
  assumes "isValid i" and "map_of (collection c) i = None"
  shows "cloud_delete i c = (c, reply 404 ''Product not found'')"
  using assms by (simp add: cloud_delete_def findById_def)

lemma product_delete_found:
  assumes "isValid i" and "map_of (collection p) i = Some product" and "write_fault p = None"
  shows "status (snd (product_delete i p)) = 200"
    and "collection (fst (product_delete i p)) = filter (\<lambda>(j, e). j \<noteq> i) (collection p)"
    and "disk (fst (product_delete i p))
           = disk p - (path_join public_dir ` set (images product) - locked p)"
  using assms delete_images_frame [of "images product" p]
  by (simp_all add: product_delete_def findById_def remove_doc_def reply_def delete_images_disk)

lemma cloud_delete_found:
  assumes "isValid i" and "map_of (collection c) i = Some product" and "write_fault c = None"
  shows "status (snd (cloud_delete i c)) = 200"
    and "collection (fst (cloud_delete i c)) = filter (\<lambda>(j, e). j \<noteq> i) (collection c)"
    and "assets (fst (cloud_delete i c))
           = assets c - {j \<in> public_id ` set (images product). j \<noteq> [] \<and> j \<notin> destroy_fault c}"
  using assms destroy_images_frame [of "images product" c]
  by (simp_all add: cloud_delete_def findById_def remove_doc_def reply_def destroy_images_assets)

text \<open>
  Claim C5, at a failing input. A product is created with one uploaded image and then
  deleted. The create stores the bare file name as the reference and the file below
  \<open>public/uploads/products\<close>; the delete looks for the reference directly below \<open>public\<close>,
  finds nothing, removes the document and answers 200: the file is still on disk.
\<close>

theorem product_delete_leaves_files:
  "status (snd (product_post sample_js 1 sample_id [sample_file ''product-1.png'']
       (sample_product_body ''abc'' ''0123456789'' (PString ''0.01'')) empty_world)) = 201
 \<and> status (snd (product_delete sample_id (fst (product_post sample_js 1 sample_id
       [sample_file ''product-1.png''] (sample_product_body ''abc'' ''0123456789'' (PString ''0.01''))
       empty_world)))) = 200
 \<and> collection (fst (product_delete sample_id (fst (product_post sample_js 1 sample_id
       [sample_file ''product-1.png''] (sample_product_body ''abc'' ''0123456789'' (PString ''0.01''))
       empty_world)))) = []
 \<and> [''public'', ''uploads'', ''products'', ''product-1.png'']
     \<in> disk (fst (product_delete sample_id (fst (product_post sample_js 1 sample_id
       [sample_file ''product-1.png''] (sample_product_body ''abc'' ''0123456789'' (PString ''0.01''))
       empty_world))))"
proof -
  define p where "p = created_product sample_js 1 [sample_file ''product-1.png'']
      (sample_product_body ''abc'' ''0123456789'' (PString ''0.01''))"
  define w1 :: "string product world" where
    "w1 = (write_files product_uploads [sample_file ''product-1.png''] empty_world)
            \<lparr>collection := put_doc sample_id p (collection empty_world)\<rparr>"
  have e: "product_post sample_js 1 sample_id [sample_file ''product-1.png'']
      (sample_product_body ''abc'' ''0123456789'' (PString ''0.01'')) empty_world = (w1, reply_doc 201 p)"
    unfolding p_def w1_def by (rule product_post_ok [OF sample_valid sample_create_facts(3,1,2,8)])
  have v: "isValid sample_id"
    by (simp add: isValid_def sample_id_def hex_digit_def)
  have f: "findById w1 sample_id = Inr (Some p)"
    by (simp add: findById_def v w1_def map_of_put_doc)
  have ip: "images p = [''product-1.png'']"
    by (simp add: p_def created_product_def sample_file_def)
  have dk: "disk w1 = {[''public'', ''uploads'', ''products'', ''product-1.png'']}"
    by (simp add: w1_def write_files_simps sample_paths sample_create_facts)
  have di: "delete_images (images p) w1 = w1"
    by (simp add: ip existsSync_def sample_paths dk)
  have wf: "write_fault w1 = None"
    by (simp add: w1_def write_files_simps sample_create_facts)
  have cl: "collection w1 = [(sample_id, p)]"
    by (simp add: w1_def put_doc_def sample_create_facts)
  have pd: "product_delete sample_id w1
      = (w1\<lparr>collection := filter (\<lambda>(j, e). j \<noteq> sample_id) (collection w1)\<rparr>,
         reply 200 ''Product deleted successfully'')"
    by (simp add: product_delete_def v f di remove_doc_def wf)
  show ?thesis
    unfolding e by (simp add: pd reply_doc_def reply_def dk cl)
qed

section \<open>Malformed identifiers\<close>

lemma malformed_id_statuses:
  assumes "\<not> isValid i"
  shows "status (product_get i w) = 400" and "status (snd (product_delete i p)) = 400"
    and "status (snd (cloud_delete i c)) = 500" and "status (snd (blog_delete i b)) = 500"
  using assms
  by (simp_all add: product_get_def product_delete_def cloud_delete_def blog_delete_def
      findById_def cloud_failure_def reply_def reply_error_def)

text \<open>
  Claim C8, at a failing input. For the malformed identifier \<open>not-an-id\<close> the delete of
  the remote variant and the blog delete answer 500; the get and the delete of the
  disk variant answer 400.
\<close>

theorem malformed_id_answers:
  "\<not> isValid ''not-an-id''
 \<and> status (snd (cloud_delete ''not-an-id'' sample_cloud)) = 500
 \<and> status (snd (blog_delete ''not-an-id'' sample_blog_world)) = 500
 \<and> status (product_get ''not-an-id'' (empty_world :: string product world)) = 400
 \<and> status (snd (product_delete ''not-an-id'' empty_world)) = 400"
  by (simp add: isValid_def cloud_delete_def blog_delete_def product_get_def product_delete_def
      findById_def cloud_failure_def reply_def reply_error_def)

end
